theory Spec2Isabelle
  imports Main "HOL-Library.List_Lexorder" "HOL-Library.Char_ord"
begin

section \<open>The file system the library lives on\<close>

text \<open>
  The shape library is a set of JSON files and preview images under a library root. The
  code reaches them through Node's synchronous \<open>fs\<close> calls. A path is its string, and
  two different strings are two different files; \<open>join\<close> glues two segments with a slash
  (category and shape ids are plain path segments, nothing is normalised).
\<close>

type_synonym path = string

datatype fs_op =
    OpRead path
  | OpWrite path
  | OpMkdir path
  | OpRename path path
  | OpCopy path path

text \<open>
  What a \<open>throw\<close> carries: an \<open>Error\<close> built by this code with its message, an error
  raised by a file-system call (the call and the operating system's message), or the
  \<open>SyntaxError\<close> of \<open>JSON.parse\<close>.
\<close>

datatype error = Error string | SysError fs_op string | SyntaxError

fun message :: "error \<Rightarrow> string" where
  "message (Error m) = m"
| "message (SysError opn m) = m"
| "message SyntaxError = ''SyntaxError''"

record CategoryConfig =
  c_id :: string
  c_name :: string

text \<open>
  The world a call runs in:
  \<^item> \<open>files\<close>: the regular files and their contents; \<open>dirs\<close>: the directories;
  \<^item> \<open>refuses\<close>: the calls the operating system rejects (permissions, cross-device
    rename, full disk, a missing parent folder, ...), each with the message of the error
    it raises; what is refused does not change while a call of the library runs;
  \<^item> \<open>effects\<close>: the journal of the calls that changed the disk, oldest first;
  \<^item> \<open>errlog\<close>: what \<open>console.error\<close> printed (the text and the error object);
  \<^item> \<open>defaultCategories\<close>: the module-level array \<open>DEFAULT_CATEGORIES\<close>, which
    \<open>loadCategories\<close> hands out by reference and its callers mutate in place.
\<close>

record world =
  files :: "path \<Rightarrow> string option"
  dirs :: "path \<Rightarrow> bool"
  refuses :: "fs_op \<Rightarrow> string option"
  effects :: "fs_op list"
  errlog :: "(string \<times> error) list"
  defaultCategories :: "CategoryConfig list"

type_synonym 'a result = "(error + 'a) \<times> world"

definition join :: "path \<Rightarrow> path \<Rightarrow> path" where
  "join a b = a @ ''/'' @ b"

definition console_error :: "string \<Rightarrow> error \<Rightarrow> world \<Rightarrow> world" where
  "console_error txt e w = w\<lparr>errlog := errlog w @ [(txt, e)]\<rparr>"

definition existsSync :: "path \<Rightarrow> world \<Rightarrow> bool" where
  "existsSync p w = (files w p \<noteq> None \<or> dirs w p)"

definition readFileSync :: "path \<Rightarrow> world \<Rightarrow> error + string" where
  "readFileSync p w =
     (case refuses w (OpRead p) of
        Some m \<Rightarrow> Inl (SysError (OpRead p) m)
      | None \<Rightarrow>
          (case files w p of
             None \<Rightarrow> Inl (SysError (OpRead p) ''ENOENT: no such file or directory'')
           | Some content \<Rightarrow> Inr content))"

definition writeFileSync :: "path \<Rightarrow> string \<Rightarrow> world \<Rightarrow> error + world" where
  "writeFileSync p content w =
     (case refuses w (OpWrite p) of
        Some m \<Rightarrow> Inl (SysError (OpWrite p) m)
      | None \<Rightarrow>
          Inr (w\<lparr>files := (files w)(p := Some content), effects := effects w @ [OpWrite p]\<rparr>))"

text \<open>\<open>mkdirSync(p, { recursive: true })\<close>.\<close>

definition mkdirSync :: "path \<Rightarrow> world \<Rightarrow> error + world" where
  "mkdirSync p w =
     (case refuses w (OpMkdir p) of
        Some m \<Rightarrow> Inl (SysError (OpMkdir p) m)
      | None \<Rightarrow>
          (if files w p \<noteq> None then Inl (SysError (OpMkdir p) ''EEXIST: file already exists'')
           else Inr (w\<lparr>dirs := (dirs w)(p := True), effects := effects w @ [OpMkdir p]\<rparr>)))"

definition renameSync :: "path \<Rightarrow> path \<Rightarrow> world \<Rightarrow> error + world" where
  "renameSync src dst w =
     (case refuses w (OpRename src dst) of
        Some m \<Rightarrow> Inl (SysError (OpRename src dst) m)
      | None \<Rightarrow>
          (case files w src of
             None \<Rightarrow> Inl (SysError (OpRename src dst) ''ENOENT: no such file or directory'')
           | Some content \<Rightarrow>
               Inr (w\<lparr>files := (files w)(src := None, dst := Some content),
                       effects := effects w @ [OpRename src dst]\<rparr>)))"

definition copyFileSync :: "path \<Rightarrow> path \<Rightarrow> world \<Rightarrow> error + world" where
  "copyFileSync src dst w =
     (case refuses w (OpCopy src dst) of
        Some m \<Rightarrow> Inl (SysError (OpCopy src dst) m)
      | None \<Rightarrow>
          (case files w src of
             None \<Rightarrow> Inl (SysError (OpCopy src dst) ''ENOENT: no such file or directory'')
           | Some content \<Rightarrow>
               Inr (w\<lparr>files := (files w)(dst := Some content),
                       effects := effects w @ [OpCopy src dst]\<rparr>)))"

section \<open>Shapes, and what the run-time provides\<close>

text \<open>
  Modelled from the spec: the interface \<open>ShapeInfo\<close> of \<open>types/shapes.ts\<close>, which is not
  among the sources. The fields are the ones the spec's data model lists and the code
  reads; the shape definition itself is an opaque payload.
\<close>

record ShapeInfo =
  s_id :: string
  s_name :: string
  s_category :: string
  s_description :: string
  s_tags :: "string list"
  s_preview :: string
  s_nativePptx :: "string option"
  s_deckSlide :: "int option"
  s_definition :: string

text \<open>\<open>Partial<ShapeInfo>\<close>: every key may be absent.\<close>

record ShapeUpdates =
  u_id :: "string option"
  u_name :: "string option"
  u_category :: "string option"
  u_description :: "string option"
  u_tags :: "string list option"
  u_preview :: "string option"
  u_nativePptx :: "string option option"
  u_deckSlide :: "int option option"
  u_definition :: "string option"

text \<open>
  What the code takes from its run-time and configuration:
  \<^item> \<open>libraryRoot\<close>: the configured library folder;
  \<^item> \<open>isoNow\<close>: \<open>new Date().toISOString()\<close>;
  \<^item> \<open>parseShapes\<close>: \<open>JSON.parse\<close> of a category file, at its declared type
    \<open>ShapeInfo[]\<close> (\<open>None\<close>: it throws); \<open>stringifyShapes\<close>:
    \<open>JSON.stringify(shapes, null, 2)\<close>;
  \<^item> \<open>parseCategories\<close>: \<open>JSON.parse\<close> of \<open>categories.json\<close> followed by the read of
    \<open>data.categories\<close> (\<open>None\<close>: one of them throws; \<open>Some None\<close>: the field is
    missing or falsy); \<open>stringifyCategories\<close>: \<open>JSON.stringify({ categories }, null, 2)\<close>;
  \<^item> \<open>parseArrayLength\<close>: \<open>JSON.parse\<close> followed by \<open>Array.isArray\<close> and \<open>length\<close>
    (\<open>None\<close>: it throws; \<open>Some None\<close>: not an array);
  \<^item> \<open>collate\<close>: the collation key behind \<open>localeCompare\<close>:
    \<open>a.localeCompare(b) \<le> 0\<close> iff \<open>collate a \<le> collate b\<close>.

  The files are read at the types the code declares for them: a category file that parses
  is an array of shape records.
\<close>

record 'k env =
  libraryRoot :: path
  isoNow :: string
  parseShapes :: "string \<Rightarrow> ShapeInfo list option"
  stringifyShapes :: "ShapeInfo list \<Rightarrow> string"
  parseCategories :: "string \<Rightarrow> CategoryConfig list option option"
  stringifyCategories :: "CategoryConfig list \<Rightarrow> string"
  parseArrayLength :: "string \<Rightarrow> nat option option"
  collate :: "string \<Rightarrow> 'k"

text \<open>
  Modelled from the spec: \<open>getLibraryRoot\<close>, \<open>getShapesDir\<close> and \<open>getAssetsDir\<close> of
  \<open>utils/paths.ts\<close>, which is not among the sources; the spec's layout puts
  \<open>shapes/\<close> and \<open>assets/\<close> under the library root.
\<close>

definition getLibraryRoot :: "'k env \<Rightarrow> path" where
  "getLibraryRoot E = libraryRoot E"

definition getShapesDir :: "'k env \<Rightarrow> path" where
  "getShapesDir E = join (getLibraryRoot E) ''shapes''"

definition getAssetsDir :: "'k env \<Rightarrow> path" where
  "getAssetsDir E = join (getLibraryRoot E) ''assets''"

text \<open>\<open>Array.prototype.findIndex\<close>; \<open>None\<close> stands for \<open>-1\<close>.\<close>

fun findIndex :: "('a \<Rightarrow> bool) \<Rightarrow> 'a list \<Rightarrow> nat option" where
  "findIndex P [] = None"
| "findIndex P (x # xs) = (if P x then Some 0 else map_option Suc (findIndex P xs))"

text \<open>The decimal digits a template string prints for a number.\<close>

function string_of_nat :: "nat \<Rightarrow> string" where
  "string_of_nat n =
     (if n < 10 then [''0123456789'' ! n]
      else string_of_nat (n div 10) @ [''0123456789'' ! (n mod 10)])"
  by pat_completeness auto
termination
  by (relation "measure (\<lambda>n. n)") auto

declare string_of_nat.simps [simp del]

definition dquote :: string where
  "dquote = [CHR 0x22]"

definition squote :: string where
  "squote = [CHR 0x27]"

section \<open>Category manager\<close>

definition DEFAULT_CATEGORIES :: "CategoryConfig list" where
  "DEFAULT_CATEGORIES =
     [\<lparr>c_id = ''basic'', c_name = ''Basic Shapes''\<rparr>,
      \<lparr>c_id = ''arrows'', c_name = ''Proposals''\<rparr>,
      \<lparr>c_id = ''flowchart'', c_name = ''Visuals''\<rparr>,
      \<lparr>c_id = ''callouts'', c_name = ''Legal''\<rparr>]"

definition getCategoriesFilePath :: "'k env \<Rightarrow> path" where
  "getCategoriesFilePath E = join (getLibraryRoot E) ''categories.json''"

definition saveCategories :: "'k env \<Rightarrow> CategoryConfig list \<Rightarrow> world \<Rightarrow> unit result" where
  "saveCategories E categories w =
     (let filePath = getCategoriesFilePath E in
      case writeFileSync filePath (stringifyCategories E categories) w of
        Inr w' \<Rightarrow> (Inr (), w')
      | Inl e \<Rightarrow> (Inl (Error (''Failed to save categories: '' @ message e)), w))"

text \<open>
  The list comes with a flag: \<open>True\<close> when it is the array \<open>DEFAULT_CATEGORIES\<close>
  itself, so that a caller's \<open>push\<close>, \<open>splice\<close> or field assignment changes that array.
  A fresh process starts with \<open>defaultCategories\<close> equal to the constant above.
\<close>

definition loadCategories :: "'k env \<Rightarrow> world \<Rightarrow> (CategoryConfig list \<times> bool) result" where
  "loadCategories E w =
     (let filePath = getCategoriesFilePath E in
      if \<not> existsSync filePath w then
        (case saveCategories E (defaultCategories w) w of
           (Inl e, w') \<Rightarrow> (Inl e, w')
         | (Inr u, w') \<Rightarrow> (Inr (defaultCategories w', True), w'))
      else
        (case readFileSync filePath w of
           Inl e \<Rightarrow>
             (Inr (defaultCategories w, True),
              console_error ''[CategoryManager] Failed to load categories:'' e w)
         | Inr content \<Rightarrow>
             (case parseCategories E content of
                None \<Rightarrow>
                  (Inr (defaultCategories w, True),
                   console_error ''[CategoryManager] Failed to load categories:'' SyntaxError w)
              | Some None \<Rightarrow> (Inr (defaultCategories w, True), w)
              | Some (Some categories) \<Rightarrow> (Inr (categories, False), w))))"

definition getCategoryIds :: "'k env \<Rightarrow> world \<Rightarrow> string list result" where
  "getCategoryIds E w =
     (case loadCategories E w of
        (Inl e, w') \<Rightarrow> (Inl e, w')
      | (Inr (categories, shared), w') \<Rightarrow> (Inr (map c_id categories), w'))"

definition getCategoryDisplayName :: "'k env \<Rightarrow> string \<Rightarrow> world \<Rightarrow> string result" where
  "getCategoryDisplayName E categoryId w =
     (case loadCategories E w of
        (Inl e, w') \<Rightarrow> (Inl e, w')
      | (Inr (categories, shared), w') \<Rightarrow>
          (case find (\<lambda>c. c_id c = categoryId) categories of
             None \<Rightarrow> (Inr categoryId, w')
           | Some found \<Rightarrow> (Inr (if c_name found \<noteq> [] then c_name found else categoryId), w')))"

text \<open>The test \<open>/^[a-z0-9-]+$/.test(id)\<close>.\<close>

definition validId :: "string \<Rightarrow> bool" where
  "validId ident =
     (ident \<noteq> [] \<and> list_all (\<lambda>c. c \<in> set ''abcdefghijklmnopqrstuvwxyz0123456789-'') ident)"

text \<open>A mutation of the loaded array reaches \<open>DEFAULT_CATEGORIES\<close> when it is that array.\<close>

definition mutated :: "bool \<Rightarrow> CategoryConfig list \<Rightarrow> world \<Rightarrow> world" where
  "mutated shared categories w = (if shared then w\<lparr>defaultCategories := categories\<rparr> else w)"

definition addCategory :: "'k env \<Rightarrow> string \<Rightarrow> string \<Rightarrow> world \<Rightarrow> unit result" where
  "addCategory E ident nm w =
     (if \<not> validId ident then
        (Inl (Error ''Category ID must be lowercase, alphanumeric, with dashes only''), w)
      else
        (case loadCategories E w of
           (Inl e, w1) \<Rightarrow> (Inl e, w1)
         | (Inr (categories, shared), w1) \<Rightarrow>
             if list_ex (\<lambda>c. c_id c = ident) categories then
               (Inl (Error (''Category with ID '' @ dquote @ ident @ dquote @ '' already exists'')), w1)
             else
               (let categories' = categories @ [\<lparr>c_id = ident, c_name = nm\<rparr>];
                    w2 = mutated shared categories' w1
                in case saveCategories E categories' w2 of
                     (Inl e, w3) \<Rightarrow> (Inl e, w3)
                   | (Inr u, w3) \<Rightarrow>
                       (let shapesFile = join (getShapesDir E) (ident @ ''.json'') in
                        if \<not> existsSync shapesFile w3 then
                          (case writeFileSync shapesFile ''[]'' w3 of
                             Inl e \<Rightarrow> (Inl e, w3)
                           | Inr w4 \<Rightarrow> (Inr (), w4))
                        else (Inr (), w3)))))"

definition renameCategory :: "'k env \<Rightarrow> string \<Rightarrow> string \<Rightarrow> world \<Rightarrow> unit result" where
  "renameCategory E categoryId newName w =
     (case loadCategories E w of
        (Inl e, w1) \<Rightarrow> (Inl e, w1)
      | (Inr (categories, shared), w1) \<Rightarrow>
          (case findIndex (\<lambda>c. c_id c = categoryId) categories of
             None \<Rightarrow> (Inl (Error (''Category '' @ dquote @ categoryId @ dquote @ '' not found'')), w1)
           | Some index \<Rightarrow>
               (let categories' = categories[index := (categories ! index)\<lparr>c_name := newName\<rparr>]
                in saveCategories E categories' (mutated shared categories' w1))))"

definition getShapeCountInCategory :: "'k env \<Rightarrow> string \<Rightarrow> world \<Rightarrow> nat" where
  "getShapeCountInCategory E categoryId w =
     (let shapesFile = join (getShapesDir E) (categoryId @ ''.json'') in
      if \<not> existsSync shapesFile w then 0
      else
        (case readFileSync shapesFile w of
           Inl e \<Rightarrow> 0
         | Inr content \<Rightarrow>
             (case parseArrayLength E content of
                None \<Rightarrow> 0
              | Some None \<Rightarrow> 0
              | Some (Some n) \<Rightarrow> n)))"

definition deleteCategory :: "'k env \<Rightarrow> string \<Rightarrow> world \<Rightarrow> bool result" where
  "deleteCategory E categoryId w =
     (case loadCategories E w of
        (Inl e, w1) \<Rightarrow> (Inl e, w1)
      | (Inr (categories, shared), w1) \<Rightarrow>
          (case findIndex (\<lambda>c. c_id c = categoryId) categories of
             None \<Rightarrow> (Inl (Error (''Category '' @ dquote @ categoryId @ dquote @ '' not found'')), w1)
           | Some index \<Rightarrow>
               (let shapeCount = getShapeCountInCategory E categoryId w1 in
                if shapeCount > 0 then
                  (Inl (Error (''Cannot delete category '' @ dquote @ c_name (categories ! index) @ dquote
                         @ '' - it contains '' @ string_of_nat shapeCount
                         @ '' shape(s). Move or delete the shapes first.'')), w1)
                else
                  (let categories' = take index categories @ drop (Suc index) categories
                   in case saveCategories E categories' (mutated shared categories' w1) of
                        (Inl e, w2) \<Rightarrow> (Inl e, w2)
                      | (Inr u, w2) \<Rightarrow> (Inr True, w2)))))"

section \<open>Shape saver\<close>

definition getCategoryFilePath :: "'k env \<Rightarrow> string \<Rightarrow> path" where
  "getCategoryFilePath E category = join (getShapesDir E) (category @ ''.json'')"

definition loadCategoryShapes :: "'k env \<Rightarrow> string \<Rightarrow> world \<Rightarrow> ShapeInfo list \<times> world" where
  "loadCategoryShapes E category w =
     (let filePath = getCategoryFilePath E category in
      if \<not> existsSync filePath w then ([], w)
      else
        (case readFileSync filePath w of
           Inl e \<Rightarrow> ([], console_error (''Failed to load '' @ category @ '' shapes:'') e w)
         | Inr content \<Rightarrow>
             (case parseShapes E content of
                None \<Rightarrow> ([], console_error (''Failed to load '' @ category @ '' shapes:'') SyntaxError w)
              | Some shapes \<Rightarrow> (shapes, w))))"

text \<open>
  \<open>shapes.sort((a, b) => a.name.localeCompare(b.name))\<close> is a stable sort on the
  collation keys of the names.
\<close>

definition sortByName :: "('k::linorder) env \<Rightarrow> ShapeInfo list \<Rightarrow> ShapeInfo list" where
  "sortByName E shapes = sort_key (\<lambda>s. collate E (s_name s)) shapes"

definition saveCategoryShapes ::
  "('k::linorder) env \<Rightarrow> string \<Rightarrow> ShapeInfo list \<Rightarrow> world \<Rightarrow> unit result" where
  "saveCategoryShapes E category shapes w =
     (let filePath = getCategoryFilePath E category;
          sortedShapes = sortByName E shapes;
          json = stringifyShapes E sortedShapes
      in case writeFileSync filePath json w of
           Inr w' \<Rightarrow> (Inr (), w')
         | Inl e \<Rightarrow>
             (Inl (Error (''Failed to save shapes to '' @ category @ ''.json at '' @ filePath
                    @ '': '' @ message e)), w))"

definition shapeExists :: "'k env \<Rightarrow> string \<Rightarrow> string \<Rightarrow> world \<Rightarrow> bool \<times> world" where
  "shapeExists E ident category w =
     (let (shapes, w') = loadCategoryShapes E category w
      in (list_ex (\<lambda>shape. s_id shape = ident) shapes, w'))"

text \<open>The branch of \<open>addShapeToLibrary\<close> on \<open>existingIndex\<close>: replace in place, or push.\<close>

definition replaceOrPush :: "ShapeInfo \<Rightarrow> ShapeInfo list \<Rightarrow> ShapeInfo list" where
  "replaceOrPush shape shapes =
     (case findIndex (\<lambda>s. s_id s = s_id shape) shapes of
        Some existingIndex \<Rightarrow> shapes[existingIndex := shape]
      | None \<Rightarrow> shapes @ [shape])"

definition addShapeToLibrary :: "('k::linorder) env \<Rightarrow> ShapeInfo \<Rightarrow> world \<Rightarrow> string result" where
  "addShapeToLibrary E shape w =
     (let category = s_category shape;
          (shapes, w1) = loadCategoryShapes E category w;
          shapes' = replaceOrPush shape shapes
      in case saveCategoryShapes E category shapes' w1 of
           (Inl e, w2) \<Rightarrow> (Inl e, w2)
         | (Inr u, w2) \<Rightarrow> (Inr (getCategoryFilePath E category), w2))"

text \<open>The object \<open>{ ...shape, ...updates }\<close>: a key of \<open>updates\<close> wins when present.\<close>

definition spread :: "ShapeInfo \<Rightarrow> ShapeUpdates \<Rightarrow> ShapeInfo" where
  "spread shape updates =
     \<lparr>s_id = (case u_id updates of Some v \<Rightarrow> v | None \<Rightarrow> s_id shape),
      s_name = (case u_name updates of Some v \<Rightarrow> v | None \<Rightarrow> s_name shape),
      s_category = (case u_category updates of Some v \<Rightarrow> v | None \<Rightarrow> s_category shape),
      s_description = (case u_description updates of Some v \<Rightarrow> v | None \<Rightarrow> s_description shape),
      s_tags = (case u_tags updates of Some v \<Rightarrow> v | None \<Rightarrow> s_tags shape),
      s_preview = (case u_preview updates of Some v \<Rightarrow> v | None \<Rightarrow> s_preview shape),
      s_nativePptx = (case u_nativePptx updates of Some v \<Rightarrow> v | None \<Rightarrow> s_nativePptx shape),
      s_deckSlide = (case u_deckSlide updates of Some v \<Rightarrow> v | None \<Rightarrow> s_deckSlide shape),
      s_definition = (case u_definition updates of Some v \<Rightarrow> v | None \<Rightarrow> s_definition shape)\<rparr>"

text \<open>The object \<open>{ ...shapes[index], ...updates, id, category }\<close>.\<close>

definition merged :: "ShapeInfo \<Rightarrow> ShapeUpdates \<Rightarrow> string \<Rightarrow> string \<Rightarrow> ShapeInfo" where
  "merged shape updates ident category = (spread shape updates)\<lparr>s_id := ident, s_category := category\<rparr>"

definition notFound :: "string \<Rightarrow> string \<Rightarrow> error" where
  "notFound ident category =
     Error (''Shape with ID '' @ squote @ ident @ squote @ '' not found in '' @ category @ '' category'')"

definition updateShapeInLibrary ::
  "('k::linorder) env \<Rightarrow> string \<Rightarrow> string \<Rightarrow> ShapeUpdates \<Rightarrow> world \<Rightarrow> unit result" where
  "updateShapeInLibrary E ident category updates w =
     (let (shapes, w1) = loadCategoryShapes E category w in
      case findIndex (\<lambda>s. s_id s = ident) shapes of
        None \<Rightarrow> (Inl (notFound ident category), w1)
      | Some index \<Rightarrow>
          saveCategoryShapes E category
            (shapes[index := merged (shapes ! index) updates ident category]) w1)"

definition removeShapeFromLibrary ::
  "('k::linorder) env \<Rightarrow> string \<Rightarrow> string \<Rightarrow> world \<Rightarrow> unit result" where
  "removeShapeFromLibrary E ident category w =
     (let (shapes, w1) = loadCategoryShapes E category w;
          filteredShapes = filter (\<lambda>s. s_id s \<noteq> ident) shapes
      in if length filteredShapes = length shapes then (Inl (notFound ident category), w1)
         else saveCategoryShapes E category filteredShapes w1)"

section \<open>Preview assets\<close>

text \<open>
  The template string \<open>`${category}/${id}.png`\<close>, and the path it names under the assets
  directory.
\<close>

definition previewName :: "string \<Rightarrow> string \<Rightarrow> string" where
  "previewName category ident = category @ ''/'' @ ident @ ''.png''"

definition previewPath :: "'k env \<Rightarrow> string \<Rightarrow> string \<Rightarrow> path" where
  "previewPath E category ident = join (getAssetsDir E) (previewName category ident)"

definition movePreviewToCategory ::
  "'k env \<Rightarrow> ShapeInfo \<Rightarrow> string \<Rightarrow> string \<Rightarrow> world \<Rightarrow> string result" where
  "movePreviewToCategory E shape oldCategory newCategory w =
     (let assetsDir = getAssetsDir E;
          oldPreviewPath = previewPath E oldCategory (s_id shape);
          newCategoryDir = join assetsDir newCategory;
          newPreviewPath = previewPath E newCategory (s_id shape)
      in case (if \<not> existsSync newCategoryDir w then mkdirSync newCategoryDir w else Inr w) of
           Inl e \<Rightarrow> (Inl e, w)
         | Inr w1 \<Rightarrow>
             (Inr (previewName newCategory (s_id shape)),
              if existsSync oldPreviewPath w1 then
                (case renameSync oldPreviewPath newPreviewPath w1 of
                   Inr w2 \<Rightarrow> w2
                 | Inl e \<Rightarrow>
                     (case copyFileSync oldPreviewPath newPreviewPath w1 of
                        Inr w2 \<Rightarrow> w2
                      | Inl copyError \<Rightarrow>
                          console_error ''[ShapeSaver] Failed to move preview:'' copyError w1))
              else w1))"

text \<open>
  The three nested loops of \<open>repairOrphanedPreviews\<close>, innermost first. Each carries
  \<open>repairedCount\<close> and the world. The search loop ends at its \<open>break\<close>.
\<close>

fun searchLoop ::
  "'k env \<Rightarrow> string \<Rightarrow> ShapeInfo \<Rightarrow> path \<Rightarrow> string list \<Rightarrow> nat \<times> world \<Rightarrow> nat \<times> world" where
  "searchLoop E category shape expectedPath [] (repairedCount, w) = (repairedCount, w)"
| "searchLoop E category shape expectedPath (searchCategory # rest) (repairedCount, w) =
     (let searchPath = previewPath E searchCategory (s_id shape) in
      if existsSync searchPath w \<and> searchCategory \<noteq> category then
        (case renameSync searchPath expectedPath w of
           Inr w' \<Rightarrow> (repairedCount + 1, w')
         | Inl e \<Rightarrow>
             (case copyFileSync searchPath expectedPath w of
                Inr w' \<Rightarrow> (repairedCount + 1, w')
              | Inl copyError \<Rightarrow>
                  searchLoop E category shape expectedPath rest
                    (repairedCount,
                     console_error (''[ShapeSaver] Failed to repair '' @ s_id shape @ '':'') copyError w)))
      else searchLoop E category shape expectedPath rest (repairedCount, w))"

fun shapeLoop ::
  "'k env \<Rightarrow> string list \<Rightarrow> string \<Rightarrow> ShapeInfo list \<Rightarrow> nat \<times> world \<Rightarrow> nat \<times> world" where
  "shapeLoop E categories category [] (repairedCount, w) = (repairedCount, w)"
| "shapeLoop E categories category (shape # rest) (repairedCount, w) =
     (let expectedPath = join (getAssetsDir E) (s_preview shape) in
      if \<not> existsSync expectedPath w then
        shapeLoop E categories category rest
          (searchLoop E category shape expectedPath categories (repairedCount, w))
      else shapeLoop E categories category rest (repairedCount, w))"

fun categoryLoop ::
  "'k env \<Rightarrow> string list \<Rightarrow> string list \<Rightarrow> nat \<times> world \<Rightarrow> nat result" where
  "categoryLoop E categories [] (repairedCount, w) = (Inr repairedCount, w)"
| "categoryLoop E categories (category # rest) (repairedCount, w) =
     (let (shapes, w1) = loadCategoryShapes E category w;
          categoryDir = join (getAssetsDir E) category
      in case (if \<not> existsSync categoryDir w1 then mkdirSync categoryDir w1 else Inr w1) of
           Inl e \<Rightarrow> (Inl e, w1)
         | Inr w2 \<Rightarrow>
             categoryLoop E categories rest
               (shapeLoop E categories category shapes (repairedCount, w2)))"

definition repairMarker :: "'k env \<Rightarrow> path" where
  "repairMarker E = join (getLibraryRoot E) ''.preview_repair_done''"

definition repairOrphanedPreviews :: "'k env \<Rightarrow> bool \<Rightarrow> world \<Rightarrow> nat result" where
  "repairOrphanedPreviews E force w =
     (case getCategoryIds E w of
        (Inl e, w0) \<Rightarrow> (Inl e, w0)
      | (Inr categories, w0) \<Rightarrow>
          if \<not> force \<and> existsSync (repairMarker E) w0 then (Inr 0, w0)
          else
            (case categoryLoop E categories categories (0, w0) of
               (Inl e, w1) \<Rightarrow> (Inl e, w1)
             | (Inr repairedCount, w1) \<Rightarrow>
                 (case writeFileSync (repairMarker E) (isoNow E) w1 of
                    Inr w2 \<Rightarrow> (Inr repairedCount, w2)
                  | Inl e \<Rightarrow>
                      (Inr repairedCount,
                       console_error ''[ShapeSaver] Failed to write repair marker:'' e w1))))"

section \<open>What the journal counts\<close>

text \<open>A relocation is a rename or a copy that went through.\<close>

fun isRelocation :: "fs_op \<Rightarrow> bool" where
  "isRelocation (OpRename src dst) = True"
| "isRelocation (OpCopy src dst) = True"
| "isRelocation opn = False"

definition relocations :: "world \<Rightarrow> nat" where
  "relocations w = length (filter isRelocation (effects w))"

text \<open>
  Which paths a call of the journal names, the calls a run added to the journal, and
  whether one of them named one of the given paths.
\<close>

fun touches :: "path \<Rightarrow> fs_op \<Rightarrow> bool" where
  "touches p (OpRead q) = (p = q)"
| "touches p (OpWrite q) = (p = q)"
| "touches p (OpMkdir q) = (p = q)"
| "touches p (OpRename src dst) = (p = src \<or> p = dst)"
| "touches p (OpCopy src dst) = (p = src \<or> p = dst)"

definition newEffects :: "world \<Rightarrow> world \<Rightarrow> fs_op list" where
  "newEffects w w' = drop (length (effects w)) (effects w')"

definition disturbed :: "path list \<Rightarrow> world \<Rightarrow> world \<Rightarrow> bool" where
  "disturbed ps w w' = list_ex (\<lambda>opn. list_ex (\<lambda>p. touches p opn) ps) (newEffects w w')"

text \<open>
  A later world of the same run: the same calls are refused, the log and the journal have
  only grown, and a path that no new call of the journal names is as it was.
\<close>

definition evolves :: "world \<Rightarrow> world \<Rightarrow> bool" where
  "evolves u u' \<longleftrightarrow>
     refuses u' = refuses u
     \<and> (\<exists>more. errlog u' = errlog u @ more)
     \<and> (\<exists>new. effects u' = effects u @ new
            \<and> (\<forall>p. (\<forall>opn \<in> set new. \<not> touches p opn) \<longrightarrow>
                   files u' p = files u p \<and> dirs u' p = dirs u p))"

section \<open>A small library to run the code on\<close>

text \<open>
  Three categories, the last with an empty display name and no shape file; two shapes in
  \<open>basic\<close>; the preview of \<open>star\<close> sits in the folder of \<open>arrows\<close>. The JSON texts
  are abbreviated; the parsers know the texts of the lists below.
\<close>

definition basic :: CategoryConfig where
  "basic = \<lparr>c_id = ''basic'', c_name = ''Basic Shapes''\<rparr>"

definition arrows :: CategoryConfig where
  "arrows = \<lparr>c_id = ''arrows'', c_name = ''Arrows''\<rparr>"

definition blank :: CategoryConfig where
  "blank = \<lparr>c_id = ''blank'', c_name = []\<rparr>"

definition lines :: CategoryConfig where
  "lines = \<lparr>c_id = ''lines'', c_name = ''Lines''\<rparr>"

definition bolt :: ShapeInfo where
  "bolt = \<lparr>s_id = ''bolt'', s_name = ''Bolt'', s_category = ''basic'', s_description = [],
            s_tags = [], s_preview = ''basic/bolt.png'', s_nativePptx = None,
            s_deckSlide = None, s_definition = ''{}''\<rparr>"

definition star :: ShapeInfo where
  "star = \<lparr>s_id = ''star'', s_name = ''Star'', s_category = ''basic'', s_description = [],
            s_tags = [], s_preview = ''basic/star.png'', s_nativePptx = None,
            s_deckSlide = None, s_definition = ''{}''\<rparr>"

definition disc :: ShapeInfo where
  "disc = \<lparr>s_id = ''disc'', s_name = ''Disc'', s_category = ''basic'', s_description = [],
            s_tags = [], s_preview = ''basic/disc.png'', s_nativePptx = None,
            s_deckSlide = None, s_definition = ''{}''\<rparr>"

definition demoCategoriesText :: "CategoryConfig list \<Rightarrow> string" where
  "demoCategoriesText cs = ''{'' @ concat (map (\<lambda>c. c_id c @ ''='' @ c_name c @ '';'') cs) @ ''}''"

definition demoShapesText :: "ShapeInfo list \<Rightarrow> string" where
  "demoShapesText xs =
     ''['' @ concat (map (\<lambda>s. s_id s @ ''='' @ s_name s @ ''@'' @ s_category s @ '';'') xs) @ '']''"

definition demoCategoryLists :: "CategoryConfig list list" where
  "demoCategoryLists = [[basic, arrows, blank], [basic, arrows, blank, lines], [basic, arrows]]"

definition demoShapeLists :: "ShapeInfo list list" where
  "demoShapeLists =
     [[], [bolt, star], [bolt, disc, star], [star, bolt\<lparr>s_name := ''Zap''\<rparr>]]"

definition demoEnv :: "string env" where
  "demoEnv =
     \<lparr>libraryRoot = ''lib'',
      isoNow = ''2024-05-01T10:00:00.000Z'',
      parseShapes = (\<lambda>content. find (\<lambda>xs. demoShapesText xs = content) demoShapeLists),
      stringifyShapes = demoShapesText,
      parseCategories =
        (\<lambda>content. map_option Some (find (\<lambda>cs. demoCategoriesText cs = content) demoCategoryLists)),
      stringifyCategories = demoCategoriesText,
      parseArrayLength =
        (\<lambda>content. map_option (\<lambda>xs. Some (length xs))
           (find (\<lambda>xs. demoShapesText xs = content) demoShapeLists)),
      collate = (\<lambda>nm. nm)\<rparr>"

definition demoWorld :: world where
  "demoWorld =
     \<lparr>files = map_of
        [(''lib/categories.json'', demoCategoriesText [basic, arrows, blank]),
         (''lib/shapes/basic.json'', demoShapesText [bolt, star]),
         (''lib/shapes/arrows.json'', ''[]''),
         (''lib/assets/basic/bolt.png'', ''PNG bolt''),
         (''lib/assets/arrows/star.png'', ''PNG star'')],
      dirs = (\<lambda>p. p \<in> set [''lib'', ''lib/shapes'', ''lib/assets'', ''lib/assets/basic'',
                              ''lib/assets/arrows'']),
      refuses = (\<lambda>opn. None),
      effects = [],
      errlog = [],
      defaultCategories = DEFAULT_CATEGORIES\<rparr>"

text \<open>The same library on a disk that refuses to create directories.\<close>

definition readOnlyDirs :: world where
  "readOnlyDirs =
     demoWorld\<lparr>refuses :=
       (\<lambda>opn. case opn of OpMkdir p \<Rightarrow> Some ''EACCES: permission denied'' | _ \<Rightarrow> None)\<rparr>"

text \<open>The same library with the asset folders on different devices: no rename goes through.\<close>

definition crossDevice :: world where
  "crossDevice =
     demoWorld\<lparr>refuses :=
       (\<lambda>opn. case opn of OpRename src dst \<Rightarrow> Some ''EXDEV: cross-device link not permitted''
              | _ \<Rightarrow> None)\<rparr>"

text \<open>Updates that try to change the identity of a record.\<close>

definition hostileUpdates :: ShapeUpdates where
  "hostileUpdates =
     \<lparr>u_id = Some ''hacked'', u_name = Some ''Zap'', u_category = Some ''arrows'',
      u_description = None, u_tags = None, u_preview = None, u_nativePptx = None,
      u_deckSlide = None, u_definition = None\<rparr>"

text \<open>The same library on a disk where only the creation of directories still works.\<close>

definition brokenDisk :: world where
  "brokenDisk =
     demoWorld\<lparr>refuses := (\<lambda>opn. case opn of OpMkdir p \<Rightarrow> None | _ \<Rightarrow> Some ''EIO: i/o error'')\<rparr>"

text \<open>The same library after an earlier repair run left its marker.\<close>

definition markedWorld :: world where
  "markedWorld =
     demoWorld\<lparr>files := (files demoWorld)(''lib/.preview_repair_done'' := Some ''2024-04-01T08:00:00.000Z'')\<rparr>"

text \<open>The same library with read-only previews and marker: no rename, copy or write goes through.\<close>

definition frozenAssets :: world where
  "frozenAssets =
     demoWorld\<lparr>refuses :=
       (\<lambda>opn. case opn of
                 OpRename src dst \<Rightarrow> Some ''EPERM: operation not permitted''
               | OpCopy src dst \<Rightarrow> Some ''EPERM: operation not permitted''
               | OpWrite p \<Rightarrow> Some ''EROFS: read-only file system''
               | _ \<Rightarrow> None)\<rparr>"

text \<open>The same library with two files that are not JSON.\<close>

definition garbledWorld :: world where
  "garbledWorld =
     demoWorld\<lparr>files := (files demoWorld)(''lib/categories.json'' := Some ''{garbled'',
                                               ''lib/shapes/arrows.json'' := Some ''[garbled'')\<rparr>"

section \<open>Basic facts\<close>

lemmas path_defs = join_def getLibraryRoot_def getShapesDir_def getAssetsDir_def
  getCategoriesFilePath_def getCategoryFilePath_def repairMarker_def

lemmas fs_defs = existsSync_def readFileSync_def writeFileSync_def mkdirSync_def renameSync_def
  copyFileSync_def console_error_def

lemmas demo_defs = demoEnv_def demoWorld_def demoCategoriesText_def demoShapesText_def
  demoCategoryLists_def demoShapeLists_def basic_def arrows_def blank_def lines_def
  bolt_def star_def disc_def

lemma findIndex_None_iff: "findIndex P xs = None \<longleftrightarrow> (\<forall>x\<in>set xs. \<not> P x)"
  by (induction xs) auto

lemma findIndex_Some:
  "findIndex P xs = Some i \<Longrightarrow> i < length xs \<and> P (xs ! i) \<and> (\<forall>j<i. \<not> P (xs ! j))"
proof (induction xs arbitrary: i)
  case Nil
  then show ?case by simp
next
  case (Cons x xs)
  show ?case
  proof (cases "P x")
    case True
    with Cons.prems show ?thesis by simp
  next
    case False
    with Cons.prems obtain k where k: "findIndex P xs = Some k" "i = Suc k"
      by auto
    from Cons.IH[OF k(1)] False k(2) show ?thesis
      by (auto simp: nth_Cons split: nat.splits)
  qed
qed

lemma find_None_findIndex: "find P xs = None \<longleftrightarrow> findIndex P xs = None"
  by (induction xs) auto

lemma find_Some_findIndex:
  "find P xs = Some x \<Longrightarrow> \<exists>i. findIndex P xs = Some i \<and> xs ! i = x"
  by (induction xs) (auto split: if_splits)

lemma length_filter_eq_iff: "length (filter P xs) = length xs \<longleftrightarrow> (\<forall>x\<in>set xs. P x)"
  by (metis filter_id_conv length_filter_less less_irrefl)

lemma shapes_file_neq_categories:
  "join (getShapesDir E) (c @ ''.json'') \<noteq> getCategoriesFilePath E"
  by (simp add: getShapesDir_def getCategoriesFilePath_def join_def)

lemma assets_file_neq_categories:
  "join (join (getAssetsDir E) c) rest \<noteq> getCategoriesFilePath E"
  by (simp add: getAssetsDir_def getCategoriesFilePath_def join_def)

lemma marker_neq_categories: "repairMarker E \<noteq> getCategoriesFilePath E"
  by (simp add: repairMarker_def getCategoriesFilePath_def join_def)

lemma demo_paths:
  "getLibraryRoot demoEnv = ''lib''"
  "getShapesDir demoEnv = ''lib/shapes''"
  "getAssetsDir demoEnv = ''lib/assets''"
  "getCategoriesFilePath demoEnv = ''lib/categories.json''"
  "getCategoryFilePath demoEnv c = ''lib/shapes/'' @ c @ ''.json''"
  "repairMarker demoEnv = ''lib/.preview_repair_done''"
  by (simp_all add: path_defs demoEnv_def)

section \<open>Facts about the category store\<close>

lemma saveCategories_cases:
  assumes "saveCategories E cs w = (r, w')"
  shows "(r = Inr () \<and> refuses w (OpWrite (getCategoriesFilePath E)) = None \<and>
          w' = w\<lparr>files := (files w)(getCategoriesFilePath E := Some (stringifyCategories E cs)),
                 effects := effects w @ [OpWrite (getCategoriesFilePath E)]\<rparr>)
       \<or> ((\<exists>e. r = Inl e) \<and> refuses w (OpWrite (getCategoriesFilePath E)) \<noteq> None \<and> w' = w)"
  using assms
  by (auto simp: saveCategories_def writeFileSync_def Let_def split: option.splits)

lemma loadCategories_frame:
  assumes "loadCategories E w = (r, w')"
  shows "dirs w' = dirs w" and "refuses w' = refuses w"
    and "defaultCategories w' = defaultCategories w"
    and "p \<noteq> getCategoriesFilePath E \<Longrightarrow> files w' p = files w p"
  using assms
  by (auto simp: loadCategories_def Let_def console_error_def saveCategories_def writeFileSync_def
      split: if_splits option.splits sum.splits prod.splits)

lemma loadCategories_effects:
  assumes "loadCategories E w = (r, w')"
  shows "set (effects w') \<subseteq> insert (OpWrite (getCategoriesFilePath E)) (set (effects w))"
  using assms
  by (auto simp: loadCategories_def Let_def console_error_def saveCategories_def writeFileSync_def
      split: if_splits option.splits sum.splits prod.splits)

lemma loadCategories_shared:
  assumes "loadCategories E w = (Inr (cs, sh), w1)"
    and "refuses w (OpRead (getCategoriesFilePath E)) \<noteq> None"
  shows "sh \<and> cs = defaultCategories w"
  using assms
  by (auto simp: loadCategories_def Let_def readFileSync_def saveCategories_def writeFileSync_def
      split: if_splits option.splits sum.splits prod.splits)

lemma loadCategories_reads_back:
  assumes "files w (getCategoriesFilePath E) = Some (stringifyCategories E cs)"
    and "parseCategories E (stringifyCategories E cs) = Some (Some cs)"
    and "refuses w (OpRead (getCategoriesFilePath E)) \<noteq> None \<longrightarrow> defaultCategories w = cs"
  shows "\<exists>sh. fst (loadCategories E w) = Inr (cs, sh)"
  using assms
  by (auto simp: loadCategories_def existsSync_def readFileSync_def Let_def split: option.splits)

lemma loadCategories_returns:
  assumes "existsSync (getCategoriesFilePath E) w \<or> refuses w (OpWrite (getCategoriesFilePath E)) = None"
  shows "\<exists>cs sh w'. loadCategories E w = (Inr (cs, sh), w')"
  using assms
  by (auto simp: loadCategories_def Let_def saveCategories_def writeFileSync_def
      split: option.splits sum.splits)

lemma getShapeCountInCategory_cong:
  assumes "files w' (join (getShapesDir E) (c @ ''.json'')) = files w (join (getShapesDir E) (c @ ''.json''))"
    and "dirs w' = dirs w" and "refuses w' = refuses w"
  shows "getShapeCountInCategory E c w' = getShapeCountInCategory E c w"
  unfolding getShapeCountInCategory_def existsSync_def readFileSync_def Let_def assms ..

lemma getShapeCountInCategory_after_load:
  "loadCategories E w = (r, w') \<Longrightarrow> getShapeCountInCategory E c w' = getShapeCountInCategory E c w"
  by (rule getShapeCountInCategory_cong)
     (simp_all add: loadCategories_frame shapes_file_neq_categories)

lemma deleteCategory_world:
  assumes "deleteCategory E categoryId w = (r, w')"
  shows "dirs w' = dirs w"
    and "p \<noteq> getCategoriesFilePath E \<Longrightarrow> files w' p = files w p"
    and "set (effects w') \<subseteq> insert (OpWrite (getCategoriesFilePath E)) (set (effects w))"
proof -
  obtain r1 w1 where l: "loadCategories E w = (r1, w1)"
    by (cases "loadCategories E w")
  note fr = loadCategories_frame[OF l] loadCategories_effects[OF l]
  have m: "dirs (mutated s cs w1) = dirs w1" "files (mutated s cs w1) = files w1"
    "effects (mutated s cs w1) = effects w1" for s cs
    by (simp_all add: mutated_def)
  have "dirs w' = dirs w \<and> (p \<noteq> getCategoriesFilePath E \<longrightarrow> files w' p = files w p)
      \<and> set (effects w') \<subseteq> insert (OpWrite (getCategoriesFilePath E)) (set (effects w))"
    using assms l fr m
    by (auto simp: deleteCategory_def Let_def
        split: sum.splits prod.splits option.splits if_splits dest!: saveCategories_cases)
  then show "dirs w' = dirs w"
    and "p \<noteq> getCategoriesFilePath E \<Longrightarrow> files w' p = files w p"
    and "set (effects w') \<subseteq> insert (OpWrite (getCategoriesFilePath E)) (set (effects w))"
    by simp_all
qed

lemma demo_loadCategories:
  "loadCategories demoEnv demoWorld = (Inr ([basic, arrows, blank], False), demoWorld)"
  by (simp add: loadCategories_def demo_defs path_defs fs_defs)

text \<open>
  Claim C10. \<open>getCategoryDisplayName\<close> answers the raw id when no category has that id,
  and also when the category it finds has the empty string as display name: the fallback
  \<open>found?.name || categoryId\<close> tests the name for truthiness. A non-empty name is
  returned as it is.
\<close>

theorem getCategoryDisplayName_fallback:
  assumes "fst (loadCategories E w) = Inr (categories, shared)"
  shows "(find (\<lambda>c. c_id c = categoryId) categories = None \<longrightarrow>
            fst (getCategoryDisplayName E categoryId w) = Inr categoryId)
       \<and> (\<forall>found. find (\<lambda>c. c_id c = categoryId) categories = Some found \<longrightarrow>
            (c_name found = [] \<longrightarrow> fst (getCategoryDisplayName E categoryId w) = Inr categoryId)
          \<and> (c_name found \<noteq> [] \<longrightarrow> fst (getCategoryDisplayName E categoryId w) = Inr (c_name found)))"
  using assms by (cases "loadCategories E w") (simp add: getCategoryDisplayName_def)

theorem getCategoryDisplayName_fallback_witness:
  "fst (getCategoryDisplayName demoEnv ''blank'' demoWorld) = Inr ''blank''
   \<and> find (\<lambda>c. c_id c = ''blank'') [basic, arrows, blank] = Some blank \<and> c_name blank = []
   \<and> fst (getCategoryDisplayName demoEnv ''ghost'' demoWorld) = Inr ''ghost''
   \<and> fst (getCategoryDisplayName demoEnv ''basic'' demoWorld) = Inr ''Basic Shapes''"
proof -
  have load: "fst (loadCategories demoEnv demoWorld) = Inr ([basic, arrows, blank], False)"
    by (simp add: demo_loadCategories)
  have f1: "find (\<lambda>c. c_id c = ''blank'') [basic, arrows, blank] = Some blank"
    and f2: "find (\<lambda>c. c_id c = ''ghost'') [basic, arrows, blank] = None"
    and f3: "find (\<lambda>c. c_id c = ''basic'') [basic, arrows, blank] = Some basic"
    and n1: "c_name blank = []" and n3: "c_name basic = ''Basic Shapes''"
    by (simp_all add: basic_def arrows_def blank_def)
  show ?thesis
    using getCategoryDisplayName_fallback[OF load, of "''blank''"]
      getCategoryDisplayName_fallback[OF load, of "''ghost''"]
      getCategoryDisplayName_fallback[OF load, of "''basic''"] f1 f2 f3 n1 n3
    by simp
qed

text \<open>
  Claim C1. For a category id present in the store, \<open>deleteCategory\<close> succeeds exactly
  when the shape count of the category is 0; with a positive count it throws an error
  whose message names the category (by its display name) and the count; for an id that
  is not in the store it throws the not-found error. The store is what
  \<open>loadCategories\<close> returns, the entry is the first one with the id, and the file
  system accepts the write of \<open>categories.json\<close>.
\<close>

theorem deleteCategory_iff_empty:
  assumes load: "fst (loadCategories E w) = Inr (categories, shared)"
    and wr: "refuses w (OpWrite (getCategoriesFilePath E)) = None"
  shows "(find (\<lambda>c. c_id c = categoryId) categories = None \<longrightarrow>
            fst (deleteCategory E categoryId w) =
              Inl (Error (''Category '' @ dquote @ categoryId @ dquote @ '' not found'')))
       \<and> (\<forall>found. find (\<lambda>c. c_id c = categoryId) categories = Some found \<longrightarrow>
            (fst (deleteCategory E categoryId w) = Inr True
               \<longleftrightarrow> getShapeCountInCategory E categoryId w = 0)
          \<and> (0 < getShapeCountInCategory E categoryId w \<longrightarrow>
               fst (deleteCategory E categoryId w) =
                 Inl (Error (''Cannot delete category '' @ dquote @ c_name found @ dquote
                        @ '' - it contains '' @ string_of_nat (getShapeCountInCategory E categoryId w)
                        @ '' shape(s). Move or delete the shapes first.''))))"
proof -
  obtain w1 where load1: "loadCategories E w = (Inr (categories, shared), w1)"
    using load by (cases "loadCategories E w") simp
  show ?thesis
  proof (intro conjI impI allI)
    assume "find (\<lambda>c. c_id c = categoryId) categories = None"
    then have "findIndex (\<lambda>c. c_id c = categoryId) categories = None"
      by (simp add: find_None_findIndex)
    with load1 show "fst (deleteCategory E categoryId w) =
        Inl (Error (''Category '' @ dquote @ categoryId @ dquote @ '' not found''))"
      by (simp add: deleteCategory_def)
  next
    fix found
    assume "find (\<lambda>c. c_id c = categoryId) categories = Some found"
    then obtain i where i: "findIndex (\<lambda>c. c_id c = categoryId) categories = Some i"
        "categories ! i = found"
      using find_Some_findIndex by fastforce
    have cnt: "getShapeCountInCategory E categoryId w1 = getShapeCountInCategory E categoryId w"
      using load1 by (rule getShapeCountInCategory_after_load)
    have r1: "refuses w1 = refuses w"
      using load1 by (rule loadCategories_frame)
    have acc: "refuses (mutated shared cs w1) (OpWrite (getCategoriesFilePath E)) = None" for cs
      using wr r1 by (simp add: mutated_def)
    show "fst (deleteCategory E categoryId w) = Inr True
            \<longleftrightarrow> getShapeCountInCategory E categoryId w = 0"
      using load1 i cnt acc
      by (auto simp: deleteCategory_def Let_def saveCategories_def writeFileSync_def
          split: prod.splits sum.splits)
    assume "0 < getShapeCountInCategory E categoryId w"
    then show "fst (deleteCategory E categoryId w) =
                   Inl (Error (''Cannot delete category '' @ dquote @ c_name found @ dquote
                          @ '' - it contains '' @ string_of_nat (getShapeCountInCategory E categoryId w)
                          @ '' shape(s). Move or delete the shapes first.''))"
      using load1 i cnt by (simp add: deleteCategory_def Let_def)
  qed
qed

theorem deleteCategory_iff_empty_witness:
  "fst (deleteCategory demoEnv ''basic'' demoWorld) =
     Inl (Error (''Cannot delete category '' @ dquote @ ''Basic Shapes'' @ dquote
            @ '' - it contains 2 shape(s). Move or delete the shapes first.''))
   \<and> getShapeCountInCategory demoEnv ''basic'' demoWorld = 2
   \<and> fst (deleteCategory demoEnv ''blank'' demoWorld) = Inr True
   \<and> getShapeCountInCategory demoEnv ''blank'' demoWorld = 0
   \<and> fst (deleteCategory demoEnv ''ghost'' demoWorld) =
       Inl (Error (''Category '' @ dquote @ ''ghost'' @ dquote @ '' not found''))"
proof -
  have load: "fst (loadCategories demoEnv demoWorld) = Inr ([basic, arrows, blank], False)"
    by (simp add: demo_loadCategories)
  have wr: "refuses demoWorld (OpWrite (getCategoriesFilePath demoEnv)) = None"
    by (simp add: demoWorld_def)
  have f1: "find (\<lambda>c. c_id c = ''basic'') [basic, arrows, blank] = Some basic"
    and f2: "find (\<lambda>c. c_id c = ''blank'') [basic, arrows, blank] = Some blank"
    and f3: "find (\<lambda>c. c_id c = ''ghost'') [basic, arrows, blank] = None"
    and n1: "c_name basic = ''Basic Shapes''"
    by (simp_all add: basic_def arrows_def blank_def)
  have c1: "getShapeCountInCategory demoEnv ''basic'' demoWorld = 2"
    and c2: "getShapeCountInCategory demoEnv ''blank'' demoWorld = 0"
    by (simp_all add: getShapeCountInCategory_def demo_defs path_defs fs_defs)
  have s2: "string_of_nat 2 = ''2''"
    by (simp add: string_of_nat.simps)
  show ?thesis
    using deleteCategory_iff_empty[OF load wr, of "''basic''"]
      deleteCategory_iff_empty[OF load wr, of "''blank''"]
      deleteCategory_iff_empty[OF load wr, of "''ghost''"] f1 f2 f3 n1 c1 c2 s2
    by simp
qed

text \<open>
  Claim C2. With a file system that accepts the two writes, \<open>addCategory\<close> fails exactly
  when the id does not match \<open>^[a-z0-9-]+$\<close> or the store already has a category with
  the id. On success \<open>categories.json\<close> holds the store with the new category appended,
  a following \<open>loadCategories\<close> returns that list (when \<open>JSON.parse\<close> gives back what
  \<open>JSON.stringify\<close> wrote), and the shape-record file of the category holds \<open>[]\<close> if
  nothing existed at its path and is untouched otherwise.
\<close>

theorem addCategory_fails_iff:
  assumes load: "fst (loadCategories E w) = Inr (categories, shared)"
    and wr1: "refuses w (OpWrite (getCategoriesFilePath E)) = None"
    and wr2: "refuses w (OpWrite (join (getShapesDir E) (ident @ ''.json''))) = None"
  shows "((\<exists>e. fst (addCategory E ident nm w) = Inl e)
            \<longleftrightarrow> \<not> validId ident \<or> (\<exists>c \<in> set categories. c_id c = ident))
       \<and> (fst (addCategory E ident nm w) = Inr () \<longrightarrow>
            files (snd (addCategory E ident nm w)) (getCategoriesFilePath E)
              = Some (stringifyCategories E (categories @ [\<lparr>c_id = ident, c_name = nm\<rparr>]))
          \<and> (parseCategories E (stringifyCategories E (categories @ [\<lparr>c_id = ident, c_name = nm\<rparr>]))
                = Some (Some (categories @ [\<lparr>c_id = ident, c_name = nm\<rparr>])) \<longrightarrow>
              (\<exists>sh. fst (loadCategories E (snd (addCategory E ident nm w)))
                      = Inr (categories @ [\<lparr>c_id = ident, c_name = nm\<rparr>], sh)))
          \<and> (\<not> existsSync (join (getShapesDir E) (ident @ ''.json'')) w \<longrightarrow>
                files (snd (addCategory E ident nm w)) (join (getShapesDir E) (ident @ ''.json''))
                  = Some ''[]'')
          \<and> (existsSync (join (getShapesDir E) (ident @ ''.json'')) w \<longrightarrow>
                files (snd (addCategory E ident nm w)) (join (getShapesDir E) (ident @ ''.json''))
                  = files w (join (getShapesDir E) (ident @ ''.json''))))"
proof -
  let ?cf = "getCategoriesFilePath E"
  let ?sf = "join (getShapesDir E) (ident @ ''.json'')"
  let ?cs = "categories @ [\<lparr>c_id = ident, c_name = nm\<rparr>]"
  obtain w1 where load1: "loadCategories E w = (Inr (categories, shared), w1)"
    using load by (cases "loadCategories E w") simp
  note fr = loadCategories_frame[OF load1]
  have ne: "?sf \<noteq> ?cf"
    by (rule shapes_file_neq_categories)
  show ?thesis
  proof (cases "validId ident \<and> \<not> list_ex (\<lambda>c. c_id c = ident) categories")
    case False
    then have "\<exists>e. fst (addCategory E ident nm w) = Inl e"
      using load1 by (auto simp: addCategory_def)
    moreover from False have "\<not> validId ident \<or> (\<exists>c \<in> set categories. c_id c = ident)"
      by (auto simp: list_ex_iff)
    ultimately show ?thesis by auto
  next
    case True
    define w2 where "w2 = mutated shared ?cs w1"
    define w3 where "w3 = w2\<lparr>files := (files w2)(?cf := Some (stringifyCategories E ?cs)),
                              effects := effects w2 @ [OpWrite ?cf]\<rparr>"
    define w4 where "w4 = (if \<not> existsSync ?sf w then
                             w3\<lparr>files := (files w3)(?sf := Some ''[]''),
                                effects := effects w3 @ [OpWrite ?sf]\<rparr>
                           else w3)"
    have w2: "refuses w2 = refuses w" "files w2 = files w1" "dirs w2 = dirs w"
      using fr by (simp_all add: w2_def mutated_def)
    have sv: "saveCategories E ?cs w2 = (Inr (), w3)"
      using wr1 w2 by (simp add: saveCategories_def writeFileSync_def w3_def Let_def)
    have ex: "existsSync ?sf w3 = existsSync ?sf w"
      using ne w2 fr(4)[OF ne] by (simp add: existsSync_def w3_def)
    have res: "addCategory E ident nm w = (Inr (), w4)"
      using True load1 sv ex wr2 w2
      by (simp add: addCategory_def Let_def w2_def[symmetric] writeFileSync_def w4_def w3_def)
    have f4: "files w4 ?cf = Some (stringifyCategories E ?cs)"
      using ne by (simp add: w4_def w3_def)
    have d4: "refuses w (OpRead ?cf) \<noteq> None \<longrightarrow> defaultCategories w4 = ?cs"
      using loadCategories_shared[OF load1]
      by (auto simp: w4_def w3_def w2_def mutated_def)
    have r4: "refuses w4 = refuses w"
      using w2 by (simp add: w4_def w3_def)
    have reread: "\<exists>sh. fst (loadCategories E w4) = Inr (?cs, sh)"
      if "parseCategories E (stringifyCategories E ?cs) = Some (Some ?cs)"
      using f4 that d4 r4 by (intro loadCategories_reads_back) simp_all
    have s4: "\<not> existsSync ?sf w \<longrightarrow> files w4 ?sf = Some ''[]''"
      by (simp add: w4_def)
    have s4': "existsSync ?sf w \<longrightarrow> files w4 ?sf = files w ?sf"
      using ne w2 fr(4)[OF ne] by (simp add: w4_def w3_def)
    from True have "\<not> (\<not> validId ident \<or> (\<exists>c \<in> set categories. c_id c = ident))"
      by (auto simp: list_ex_iff)
    then show ?thesis
      using res f4 reread s4 s4' by simp
  qed
qed

theorem addCategory_fails_iff_witness:
  "fst (addCategory demoEnv ''lines'' ''Lines'' demoWorld) = Inr ()
   \<and> (\<exists>sh. fst (loadCategories demoEnv (snd (addCategory demoEnv ''lines'' ''Lines'' demoWorld)))
             = Inr ([basic, arrows, blank, lines], sh))
   \<and> files (snd (addCategory demoEnv ''lines'' ''Lines'' demoWorld)) ''lib/shapes/lines.json'' = Some ''[]''
   \<and> (\<exists>e. fst (addCategory demoEnv ''My Shapes'' ''My Shapes'' demoWorld) = Inl e)
   \<and> (\<exists>e. fst (addCategory demoEnv ''basic'' ''Again'' demoWorld) = Inl e)"
proof -
  have load: "fst (loadCategories demoEnv demoWorld) = Inr ([basic, arrows, blank], False)"
    by (simp add: demo_loadCategories)
  have wr: "refuses demoWorld (OpWrite p) = None" for p
    by (simp add: demoWorld_def)
  have v: "validId ''lines''" "\<not> validId ''My Shapes''" "validId ''basic''"
    by (simp_all add: validId_def)
  have fresh: "\<not> (\<exists>c \<in> set [basic, arrows, blank]. c_id c = ''lines'')"
    and old: "\<exists>c \<in> set [basic, arrows, blank]. c_id c = ''basic''"
    by (simp_all add: basic_def arrows_def blank_def)
  have l: "[basic, arrows, blank] @ [\<lparr>c_id = ''lines'', c_name = ''Lines''\<rparr>] = [basic, arrows, blank, lines]"
    by (simp add: lines_def)
  have rt: "parseCategories demoEnv (stringifyCategories demoEnv [basic, arrows, blank, lines])
      = Some (Some [basic, arrows, blank, lines])"
    by (simp add: demo_defs)
  have ab: "\<not> existsSync (join (getShapesDir demoEnv) (''lines'' @ ''.json'')) demoWorld"
    by (simp add: existsSync_def demoWorld_def demo_paths join_def)
  note a1 = addCategory_fails_iff[OF load wr wr, of "''lines''" "''Lines''"]
  note a2 = addCategory_fails_iff[OF load wr wr, of "''My Shapes''" "''My Shapes''"]
  note a3 = addCategory_fails_iff[OF load wr wr, of "''basic''" "''Again''"]
  have ok: "fst (addCategory demoEnv ''lines'' ''Lines'' demoWorld) = Inr ()"
    using a1 v fresh by (cases "fst (addCategory demoEnv ''lines'' ''Lines'' demoWorld)") auto
  show ?thesis
    using a1 a2 a3 ok v old rt ab by (simp add: lines_def demo_paths join_def)
qed

text \<open>
  Claim C8. \<open>deleteCategory\<close> writes nothing but \<open>categories.json\<close>: whatever the
  outcome, the shape-record file \<open>shapes/<id>.json\<close> of the category and every file under
  its asset folder \<open>assets/<id>/\<close> keep their contents, no directory appears or
  disappears, and the only call that changes the disk is the write of
  \<open>categories.json\<close>. After a successful delete that file holds the list without the
  entry.
\<close>

theorem deleteCategory_leaves_shapes_and_assets:
  "files (snd (deleteCategory E categoryId w)) (join (getShapesDir E) (categoryId @ ''.json''))
     = files w (join (getShapesDir E) (categoryId @ ''.json''))
   \<and> (\<forall>rest. files (snd (deleteCategory E categoryId w)) (join (join (getAssetsDir E) categoryId) rest)
               = files w (join (join (getAssetsDir E) categoryId) rest))
   \<and> dirs (snd (deleteCategory E categoryId w)) = dirs w
   \<and> set (effects (snd (deleteCategory E categoryId w)))
        \<subseteq> insert (OpWrite (getCategoriesFilePath E)) (set (effects w))
   \<and> (\<forall>categories shared index.
         fst (loadCategories E w) = Inr (categories, shared)
         \<and> findIndex (\<lambda>c. c_id c = categoryId) categories = Some index
         \<and> fst (deleteCategory E categoryId w) = Inr True \<longrightarrow>
         files (snd (deleteCategory E categoryId w)) (getCategoriesFilePath E)
           = Some (stringifyCategories E (take index categories @ drop (Suc index) categories)))"
proof -
  obtain r w' where d: "deleteCategory E categoryId w = (r, w')"
    by (cases "deleteCategory E categoryId w")
  have last: "files w' (getCategoriesFilePath E)
           = Some (stringifyCategories E (take index categories @ drop (Suc index) categories))"
    if a1: "fst (loadCategories E w) = Inr (categories, shared)"
      and a2: "findIndex (\<lambda>c. c_id c = categoryId) categories = Some index" and a3: "r = Inr True"
    for categories shared index
  proof -
    obtain w1 where "loadCategories E w = (Inr (categories, shared), w1)"
      using a1 by (cases "loadCategories E w") simp
    then show ?thesis
      using d a2 a3
      by (auto simp: deleteCategory_def Let_def
          split: sum.splits prod.splits if_splits dest!: saveCategories_cases)
  qed
  show ?thesis
    using deleteCategory_world[OF d] last
    by (simp add: d shapes_file_neq_categories assets_file_neq_categories)
qed

theorem deleteCategory_leaves_shapes_and_assets_witness:
  "fst (deleteCategory demoEnv ''arrows'' demoWorld) = Inr True
   \<and> files (snd (deleteCategory demoEnv ''arrows'' demoWorld)) ''lib/categories.json''
       = Some (demoCategoriesText [basic, blank])
   \<and> files (snd (deleteCategory demoEnv ''arrows'' demoWorld)) ''lib/shapes/arrows.json'' = Some ''[]''
   \<and> files (snd (deleteCategory demoEnv ''arrows'' demoWorld)) ''lib/assets/arrows/star.png''
       = Some ''PNG star''"
proof -
  have load: "fst (loadCategories demoEnv demoWorld) = Inr ([basic, arrows, blank], False)"
    by (simp add: demo_loadCategories)
  have ix: "findIndex (\<lambda>c. c_id c = ''arrows'') [basic, arrows, blank] = Some 1"
    by (simp add: basic_def arrows_def blank_def)
  have ok: "fst (deleteCategory demoEnv ''arrows'' demoWorld) = Inr True"
    by code_simp
  have f: "files demoWorld ''lib/shapes/arrows.json'' = Some ''[]''"
    "files demoWorld ''lib/assets/arrows/star.png'' = Some ''PNG star''"
    by (simp_all add: demoWorld_def)
  have st: "stringifyCategories demoEnv = demoCategoriesText"
    by (simp add: demoEnv_def)
  note frame = deleteCategory_leaves_shapes_and_assets[of demoEnv "''arrows''" demoWorld]
  from frame load ix ok
  have "files (snd (deleteCategory demoEnv ''arrows'' demoWorld)) (getCategoriesFilePath demoEnv)
      = Some (stringifyCategories demoEnv (take 1 [basic, arrows, blank] @ drop (Suc 1) [basic, arrows, blank]))"
    by blast
  moreover from frame
  have "files (snd (deleteCategory demoEnv ''arrows'' demoWorld))
          (join (join (getAssetsDir demoEnv) ''arrows'') ''star.png'')
        = files demoWorld (join (join (getAssetsDir demoEnv) ''arrows'') ''star.png'')"
    by blast
  ultimately show ?thesis
    using frame ok f by (simp add: demo_paths join_def st)
qed

section \<open>Facts about the shape repository\<close>

lemma loadCategoryShapes_frame:
  assumes "loadCategoryShapes E c w = (xs, w')"
  shows "files w' = files w" and "dirs w' = dirs w" and "refuses w' = refuses w"
    and "effects w' = effects w" and "defaultCategories w' = defaultCategories w"
  using assms
  by (auto simp: loadCategoryShapes_def Let_def console_error_def
      split: if_splits option.splits sum.splits)

lemma loadCategoryShapes_cong:
  assumes "files w' = files w" and "dirs w' = dirs w" and "refuses w' = refuses w"
  shows "fst (loadCategoryShapes E c w') = fst (loadCategoryShapes E c w)"
  using assms
  by (simp add: loadCategoryShapes_def existsSync_def readFileSync_def Let_def
      split: option.splits)

lemma loadCategoryShapes_refused:
  "refuses w (OpRead (getCategoryFilePath E c)) \<noteq> None \<Longrightarrow> fst (loadCategoryShapes E c w) = []"
  by (auto simp: loadCategoryShapes_def readFileSync_def Let_def split: option.splits)

lemma loadCategoryShapes_reads:
  assumes "files w (getCategoryFilePath E c) = Some content"
    and "refuses w (OpRead (getCategoryFilePath E c)) = None"
    and "parseShapes E content = Some xs"
  shows "loadCategoryShapes E c w = (xs, w)"
  using assms by (simp add: loadCategoryShapes_def existsSync_def readFileSync_def Let_def)

lemma saveCategoryShapes_cases:
  assumes "saveCategoryShapes E c xs w = (r, w')"
  shows "(r = Inr () \<and> refuses w (OpWrite (getCategoryFilePath E c)) = None \<and>
          w' = w\<lparr>files := (files w)(getCategoryFilePath E c := Some (stringifyShapes E (sortByName E xs))),
                 effects := effects w @ [OpWrite (getCategoryFilePath E c)]\<rparr>)
       \<or> ((\<exists>e. r = Inl e \<and> (\<forall>i c'. e \<noteq> notFound i c'))
           \<and> refuses w (OpWrite (getCategoryFilePath E c)) \<noteq> None \<and> w' = w)"
  using assms
  by (auto simp: saveCategoryShapes_def writeFileSync_def Let_def notFound_def split: option.splits)

lemma demo_loadCategoryShapes:
  "loadCategoryShapes demoEnv ''basic'' demoWorld = ([bolt, star], demoWorld)"
  by (simp add: loadCategoryShapes_def demo_defs path_defs fs_defs)

text \<open>
  Claim C9. \<open>removeShapeFromLibrary\<close> and \<open>updateShapeInLibrary\<close> throw the not-found
  error exactly when the category file holds no record with the id, and then nothing was
  written: every file and directory is as before and the journal of disk changes has not
  grown.
\<close>

theorem not_found_leaves_disk_unchanged:
  "(fst (removeShapeFromLibrary E ident category w) = Inl (notFound ident category)
      \<longleftrightarrow> (\<forall>s \<in> set (fst (loadCategoryShapes E category w)). s_id s \<noteq> ident))
   \<and> (fst (updateShapeInLibrary E ident category updates w) = Inl (notFound ident category)
      \<longleftrightarrow> (\<forall>s \<in> set (fst (loadCategoryShapes E category w)). s_id s \<noteq> ident))
   \<and> (fst (removeShapeFromLibrary E ident category w) = Inl (notFound ident category) \<longrightarrow>
        files (snd (removeShapeFromLibrary E ident category w)) = files w
      \<and> dirs (snd (removeShapeFromLibrary E ident category w)) = dirs w
      \<and> effects (snd (removeShapeFromLibrary E ident category w)) = effects w)
   \<and> (fst (updateShapeInLibrary E ident category updates w) = Inl (notFound ident category) \<longrightarrow>
        files (snd (updateShapeInLibrary E ident category updates w)) = files w
      \<and> dirs (snd (updateShapeInLibrary E ident category updates w)) = dirs w
      \<and> effects (snd (updateShapeInLibrary E ident category updates w)) = effects w)"
proof -
  obtain shapes w1 where l: "loadCategoryShapes E category w = (shapes, w1)"
    by (cases "loadCategoryShapes E category w")
  note fr = loadCategoryShapes_frame[OF l]
  have rm: "fst (removeShapeFromLibrary E ident category w) = Inl (notFound ident category)
      \<longleftrightarrow> (\<forall>s \<in> set shapes. s_id s \<noteq> ident)"
    using l
    by (cases "saveCategoryShapes E category (filter (\<lambda>s. s_id s \<noteq> ident) shapes) w1")
       (auto simp: removeShapeFromLibrary_def Let_def length_filter_eq_iff
         dest!: saveCategoryShapes_cases)
  have up: "fst (updateShapeInLibrary E ident category updates w) = Inl (notFound ident category)
      \<longleftrightarrow> (\<forall>s \<in> set shapes. s_id s \<noteq> ident)"
  proof (cases "findIndex (\<lambda>s. s_id s = ident) shapes")
    case None
    moreover from None have "\<forall>s \<in> set shapes. s_id s \<noteq> ident"
      using findIndex_None_iff[of "\<lambda>s. s_id s = ident" shapes] by simp
    ultimately show ?thesis
      using l by (simp add: updateShapeInLibrary_def)
  next
    case (Some i)
    then have "\<not> (\<forall>s \<in> set shapes. s_id s \<noteq> ident)"
      using findIndex_None_iff[of "\<lambda>s. s_id s = ident" shapes] by simp
    then show ?thesis
      using l Some
      by (cases "saveCategoryShapes E category
                   (shapes[i := merged (shapes ! i) updates ident category]) w1")
         (auto simp: updateShapeInLibrary_def dest!: saveCategoryShapes_cases)
  qed
  have rm2: "snd (removeShapeFromLibrary E ident category w) = w1"
    if "\<forall>s \<in> set shapes. s_id s \<noteq> ident"
    using l that by (simp add: removeShapeFromLibrary_def Let_def length_filter_eq_iff)
  have up2: "snd (updateShapeInLibrary E ident category updates w) = w1"
    if "\<forall>s \<in> set shapes. s_id s \<noteq> ident"
    using l that findIndex_None_iff[of "\<lambda>s. s_id s = ident" shapes]
    by (simp add: updateShapeInLibrary_def)
  show ?thesis
    using rm up rm2 up2 fr l by simp
qed

theorem not_found_leaves_disk_unchanged_witness:
  "fst (removeShapeFromLibrary demoEnv ''ghost'' ''basic'' demoWorld) = Inl (notFound ''ghost'' ''basic'')
   \<and> files (snd (removeShapeFromLibrary demoEnv ''ghost'' ''basic'' demoWorld)) = files demoWorld
   \<and> effects (snd (removeShapeFromLibrary demoEnv ''ghost'' ''basic'' demoWorld)) = []
   \<and> fst (updateShapeInLibrary demoEnv ''ghost'' ''basic'' hostileUpdates demoWorld)
       = Inl (notFound ''ghost'' ''basic'')
   \<and> files (snd (updateShapeInLibrary demoEnv ''ghost'' ''basic'' hostileUpdates demoWorld)) = files demoWorld
   \<and> effects (snd (updateShapeInLibrary demoEnv ''ghost'' ''basic'' hostileUpdates demoWorld)) = []"
proof -
  have no: "\<forall>s \<in> set (fst (loadCategoryShapes demoEnv ''basic'' demoWorld)). s_id s \<noteq> ''ghost''"
    by (simp add: demo_loadCategoryShapes bolt_def star_def)
  have e: "effects demoWorld = []"
    by (simp add: demoWorld_def)
  show ?thesis
    using not_found_leaves_disk_unchanged[of demoEnv "''ghost''" "''basic''" demoWorld hostileUpdates] no e
    by simp
qed

text \<open>
  Claim C3. \<open>updateShapeInLibrary\<close> throws the not-found error when no record of the
  category file has the id. Otherwise, once the file system accepts the write, the file
  holds the sorted list in which the record found is replaced by the merged one, and the
  merged record has the id of the record it replaces and the category under which the
  record is filed, whatever \<open>id\<close> and \<open>category\<close> the updates carry. For a record
  whose own category field names the file it is stored in, as in every file this code
  writes, the category field is therefore unchanged.
\<close>

theorem updateShapeInLibrary_pins_identity:
  assumes "fst (loadCategoryShapes E category w) = shapes"
  shows "(findIndex (\<lambda>s. s_id s = ident) shapes = None \<longrightarrow>
            fst (updateShapeInLibrary E ident category updates w) = Inl (notFound ident category))
       \<and> (\<forall>index. findIndex (\<lambda>s. s_id s = ident) shapes = Some index
             \<and> refuses w (OpWrite (getCategoryFilePath E category)) = None \<longrightarrow>
            fst (updateShapeInLibrary E ident category updates w) = Inr ()
          \<and> files (snd (updateShapeInLibrary E ident category updates w)) (getCategoryFilePath E category)
              = Some (stringifyShapes E (sortByName E
                        (shapes[index := merged (shapes ! index) updates ident category])))
          \<and> merged (shapes ! index) updates ident category
              \<in> set (sortByName E (shapes[index := merged (shapes ! index) updates ident category]))
          \<and> s_id (merged (shapes ! index) updates ident category) = s_id (shapes ! index)
          \<and> s_category (merged (shapes ! index) updates ident category) = category
          \<and> (s_category (shapes ! index) = category \<longrightarrow>
               s_category (merged (shapes ! index) updates ident category) = s_category (shapes ! index)))"
proof -
  obtain w1 where l: "loadCategoryShapes E category w = (shapes, w1)"
    using assms by (cases "loadCategoryShapes E category w") simp
  note fr = loadCategoryShapes_frame[OF l]
  show ?thesis
  proof (intro conjI impI allI; (elim conjE)?)
    assume "findIndex (\<lambda>s. s_id s = ident) shapes = None"
    then show "fst (updateShapeInLibrary E ident category updates w) = Inl (notFound ident category)"
      using l by (simp add: updateShapeInLibrary_def)
  next
    fix index
    assume i: "findIndex (\<lambda>s. s_id s = ident) shapes = Some index"
      and wr: "refuses w (OpWrite (getCategoryFilePath E category)) = None"
    let ?m = "merged (shapes ! index) updates ident category"
    have u: "updateShapeInLibrary E ident category updates w
               = saveCategoryShapes E category (shapes[index := ?m]) w1"
      using l i by (simp add: updateShapeInLibrary_def)
    have s: "saveCategoryShapes E category (shapes[index := ?m]) w1
        = (Inr (), w1\<lparr>files := (files w1)(getCategoryFilePath E category :=
                          Some (stringifyShapes E (sortByName E (shapes[index := ?m])))),
                       effects := effects w1 @ [OpWrite (getCategoryFilePath E category)]\<rparr>)"
      using wr fr by (simp add: saveCategoryShapes_def writeFileSync_def Let_def)
    show "fst (updateShapeInLibrary E ident category updates w) = Inr ()"
      by (simp add: u s)
    show "files (snd (updateShapeInLibrary E ident category updates w)) (getCategoryFilePath E category)
              = Some (stringifyShapes E (sortByName E (shapes[index := ?m])))"
      by (simp add: u s)
    from findIndex_Some[OF i] have lt: "index < length shapes" and idx: "s_id (shapes ! index) = ident"
      by simp_all
    show "?m \<in> set (sortByName E (shapes[index := ?m]))"
      using lt by (simp add: sortByName_def set_update_memI)
    show "s_id ?m = s_id (shapes ! index)"
      using idx by (simp add: merged_def)
    show "s_category ?m = category"
      by (simp add: merged_def)
    show "s_category ?m = s_category (shapes ! index)" if "s_category (shapes ! index) = category"
      using that by (simp add: merged_def)
  qed
qed

theorem updateShapeInLibrary_pins_identity_witness:
  "fst (updateShapeInLibrary demoEnv ''bolt'' ''basic'' hostileUpdates demoWorld) = Inr ()
   \<and> files (snd (updateShapeInLibrary demoEnv ''bolt'' ''basic'' hostileUpdates demoWorld))
        ''lib/shapes/basic.json'' = Some (demoShapesText [star, bolt\<lparr>s_name := ''Zap''\<rparr>])
   \<and> merged bolt hostileUpdates ''bolt'' ''basic'' = bolt\<lparr>s_name := ''Zap''\<rparr>
   \<and> s_id (bolt\<lparr>s_name := ''Zap''\<rparr>) = ''bolt'' \<and> s_category (bolt\<lparr>s_name := ''Zap''\<rparr>) = ''basic''"
proof -
  have load: "fst (loadCategoryShapes demoEnv ''basic'' demoWorld) = [bolt, star]"
    by (simp add: demo_loadCategoryShapes)
  have ix: "findIndex (\<lambda>s. s_id s = ''bolt'') [bolt, star] = Some 0"
    by (simp add: bolt_def)
  have wr: "refuses demoWorld (OpWrite (getCategoryFilePath demoEnv ''basic'')) = None"
    by (simp add: demoWorld_def)
  have m: "merged bolt hostileUpdates ''bolt'' ''basic'' = bolt\<lparr>s_name := ''Zap''\<rparr>"
    by (simp add: merged_def spread_def hostileUpdates_def bolt_def)
  have srt: "sortByName demoEnv [bolt\<lparr>s_name := ''Zap''\<rparr>, star] = [star, bolt\<lparr>s_name := ''Zap''\<rparr>]"
    by (simp add: sortByName_def demoEnv_def bolt_def star_def)
  have st: "stringifyShapes demoEnv = demoShapesText"
    by (simp add: demoEnv_def)
  have c: "s_id (bolt\<lparr>s_name := ''Zap''\<rparr>) = ''bolt''" "s_category (bolt\<lparr>s_name := ''Zap''\<rparr>) = ''basic''"
    by (simp_all add: bolt_def)
  show ?thesis
    using updateShapeInLibrary_pins_identity[OF load, of "''bolt''" hostileUpdates] ix wr c
    by (simp add: m srt st demo_paths)
qed

lemma replaceOrPush_Cons:
  "s_id x \<noteq> s_id shape \<Longrightarrow> replaceOrPush shape (x # xs) = x # replaceOrPush shape xs"
  by (simp add: replaceOrPush_def split: option.splits)

lemma replaceOrPush_filter:
  "length (filter (\<lambda>s. s_id s = s_id shape) shapes) \<le> 1 \<Longrightarrow>
     filter (\<lambda>s. s_id s = s_id shape) (replaceOrPush shape shapes) = [shape]"
proof (induction shapes)
  case Nil
  then show ?case by (simp add: replaceOrPush_def)
next
  case (Cons x xs)
  show ?case
  proof (cases "s_id x = s_id shape")
    case True
    with Cons.prems have "filter (\<lambda>s. s_id s = s_id shape) xs = []"
      by simp
    with True show ?thesis
      by (simp add: replaceOrPush_def)
  next
    case False
    with Cons show ?thesis
      by (simp add: replaceOrPush_Cons)
  qed
qed

lemma replaceOrPush_fixed:
  "filter (\<lambda>s. s_id s = s_id shape) shapes = [shape] \<Longrightarrow> replaceOrPush shape shapes = shapes"
proof (induction shapes)
  case Nil
  then show ?case by simp
next
  case (Cons x xs)
  show ?case
  proof (cases "s_id x = s_id shape")
    case True
    with Cons.prems have "x = shape" by simp
    then show ?thesis by (simp add: replaceOrPush_def)
  next
    case False
    with Cons show ?thesis
      by (simp add: replaceOrPush_Cons)
  qed
qed

lemma sortByName_idem: "sortByName E (sortByName E xs) = sortByName E xs"
  unfolding sortByName_def by (rule sort_key_id_if_sorted) simp

lemma sortByName_filter:
  "filter P (sortByName E xs) = sortByName E (filter P xs)"
  by (simp add: sortByName_def filter_sort)

lemma upsert_again:
  assumes "length (filter (\<lambda>s. s_id s = s_id shape) shapes) \<le> 1"
  shows "sortByName E (replaceOrPush shape (sortByName E (replaceOrPush shape shapes)))
           = sortByName E (replaceOrPush shape shapes)"
    and "filter (\<lambda>s. s_id s = s_id shape) (sortByName E (replaceOrPush shape shapes)) = [shape]"
proof -
  let ?L = "sortByName E (replaceOrPush shape shapes)"
  have "filter (\<lambda>s. s_id s = s_id shape) ?L
          = sortByName E (filter (\<lambda>s. s_id s = s_id shape) (replaceOrPush shape shapes))"
    by (rule sortByName_filter)
  also have "\<dots> = sortByName E [shape]"
    using assms by (simp add: replaceOrPush_filter)
  also have "\<dots> = [shape]"
    by (simp add: sortByName_def)
  finally show f: "filter (\<lambda>s. s_id s = s_id shape) ?L = [shape]" .
  then have "replaceOrPush shape ?L = ?L"
    by (rule replaceOrPush_fixed)
  then show "sortByName E (replaceOrPush shape ?L) = ?L"
    by (simp add: sortByName_idem)
qed

lemma addShapeToLibrary_unfold:
  assumes "loadCategoryShapes E (s_category shape) w = (xs, wA)"
  shows "addShapeToLibrary E shape w =
     (case refuses wA (OpWrite (getCategoryFilePath E (s_category shape))) of
        None \<Rightarrow>
          (Inr (getCategoryFilePath E (s_category shape)),
           wA\<lparr>files := (files wA)(getCategoryFilePath E (s_category shape) :=
                           Some (stringifyShapes E (sortByName E (replaceOrPush shape xs)))),
              effects := effects wA @ [OpWrite (getCategoryFilePath E (s_category shape))]\<rparr>)
      | Some m \<Rightarrow>
          (Inl (Error (''Failed to save shapes to '' @ s_category shape @ ''.json at ''
                  @ getCategoryFilePath E (s_category shape) @ '': '' @ m)), wA))"
  using assms
  by (simp add: addShapeToLibrary_def saveCategoryShapes_def writeFileSync_def Let_def
      split: option.splits)

text \<open>
  Claim C4. A second \<open>addShapeToLibrary\<close> of the same shape leaves the category file
  byte for byte as the first one wrote it: it succeeds like the first, no file of the
  disk differs afterwards, and the category file holds the text of the list sorted by
  name. This is for a category file in which at most one record has the id of the shape,
  as in every file that keeps shape ids unique within the category, and the first
  application leaves the file so; \<open>JSON.parse\<close> is taken to give back the list that
  \<open>JSON.stringify\<close> wrote.
\<close>

theorem addShapeToLibrary_idempotent:
  assumes one: "length (filter (\<lambda>s. s_id s = s_id shape)
                          (fst (loadCategoryShapes E (s_category shape) w))) \<le> 1"
    and rt: "parseShapes E (stringifyShapes E (sortByName E (replaceOrPush shape
                (fst (loadCategoryShapes E (s_category shape) w)))))
             = Some (sortByName E (replaceOrPush shape (fst (loadCategoryShapes E (s_category shape) w))))"
    and first: "fst (addShapeToLibrary E shape w) = Inr fp"
  shows "fst (addShapeToLibrary E shape (snd (addShapeToLibrary E shape w))) = Inr fp
       \<and> files (snd (addShapeToLibrary E shape (snd (addShapeToLibrary E shape w))))
           = files (snd (addShapeToLibrary E shape w))
       \<and> files (snd (addShapeToLibrary E shape w)) (getCategoryFilePath E (s_category shape))
           = Some (stringifyShapes E (sortByName E (replaceOrPush shape
                     (fst (loadCategoryShapes E (s_category shape) w)))))
       \<and> length (filter (\<lambda>s. s_id s = s_id shape)
                   (fst (loadCategoryShapes E (s_category shape) (snd (addShapeToLibrary E shape w))))) \<le> 1"
proof -
  let ?c = "s_category shape"
  let ?fp = "getCategoryFilePath E ?c"
  obtain xs wA where l: "loadCategoryShapes E ?c w = (xs, wA)"
    by (cases "loadCategoryShapes E ?c w")
  note fr = loadCategoryShapes_frame[OF l]
  let ?L = "sortByName E (replaceOrPush shape xs)"
  define w1 where "w1 = wA\<lparr>files := (files wA)(?fp := Some (stringifyShapes E ?L)),
                           effects := effects wA @ [OpWrite ?fp]\<rparr>"
  from one l have d: "length (filter (\<lambda>s. s_id s = s_id shape) xs) \<le> 1" by simp
  from rt l have rt': "parseShapes E (stringifyShapes E ?L) = Some ?L" by simp
  have wr: "refuses wA (OpWrite ?fp) = None"
    using first addShapeToLibrary_unfold[OF l] by (auto split: option.splits)
  have a1: "addShapeToLibrary E shape w = (Inr ?fp, w1)"
    using addShapeToLibrary_unfold[OF l] wr by (simp add: w1_def)
  have fp: "fp = ?fp"
    using first a1 by simp
  have w1: "refuses w1 = refuses w" "files w1 ?fp = Some (stringifyShapes E ?L)"
    using fr by (simp_all add: w1_def)
  obtain ys wB where l2: "loadCategoryShapes E ?c w1 = (ys, wB)"
    by (cases "loadCategoryShapes E ?c w1")
  note fr2 = loadCategoryShapes_frame[OF l2]
  have again: "sortByName E (replaceOrPush shape ys) = ?L
      \<and> length (filter (\<lambda>s. s_id s = s_id shape) ys) \<le> 1"
  proof (cases "refuses w (OpRead ?fp)")
    case None
    then have "loadCategoryShapes E ?c w1 = (?L, w1)"
      using w1 rt' by (intro loadCategoryShapes_reads) simp_all
    with l2 have "ys = ?L" by simp
    then show ?thesis
      using upsert_again[OF d, of E] by simp
  next
    case (Some m)
    then have "fst (loadCategoryShapes E ?c w1) = []" "fst (loadCategoryShapes E ?c w) = []"
      using w1 by (simp_all add: loadCategoryShapes_refused)
    with l l2 show ?thesis by simp
  qed
  have wr2: "refuses wB (OpWrite ?fp) = None"
    using wr fr fr2 w1 by simp
  have a2: "addShapeToLibrary E shape w1 =
      (Inr ?fp, wB\<lparr>files := (files wB)(?fp := Some (stringifyShapes E ?L)),
                   effects := effects wB @ [OpWrite ?fp]\<rparr>)"
    using addShapeToLibrary_unfold[OF l2] wr2 again by simp
  have same: "(files w1)(?fp := Some (stringifyShapes E ?L)) = files w1"
    using w1 by (simp add: fun_upd_idem_iff)
  show ?thesis
    using a1 a2 fp w1 fr2 same again l l2 by simp
qed

theorem addShapeToLibrary_idempotent_witness:
  "fst (addShapeToLibrary demoEnv disc demoWorld) = Inr ''lib/shapes/basic.json''
   \<and> fst (addShapeToLibrary demoEnv disc (snd (addShapeToLibrary demoEnv disc demoWorld)))
       = Inr ''lib/shapes/basic.json''
   \<and> files (snd (addShapeToLibrary demoEnv disc (snd (addShapeToLibrary demoEnv disc demoWorld))))
       = files (snd (addShapeToLibrary demoEnv disc demoWorld))
   \<and> files (snd (addShapeToLibrary demoEnv disc demoWorld)) ''lib/shapes/basic.json''
       = Some (demoShapesText [bolt, disc, star])"
proof -
  have c: "s_category disc = ''basic''"
    by (simp add: disc_def)
  have srt: "sortByName demoEnv (replaceOrPush disc [bolt, star]) = [bolt, disc, star]"
    by (simp add: sortByName_def replaceOrPush_def demoEnv_def bolt_def star_def disc_def)
  have one: "length (filter (\<lambda>s. s_id s = s_id disc)
                       (fst (loadCategoryShapes demoEnv (s_category disc) demoWorld))) \<le> 1"
    by (simp add: c demo_loadCategoryShapes bolt_def star_def disc_def)
  have rt: "parseShapes demoEnv (stringifyShapes demoEnv (sortByName demoEnv (replaceOrPush disc
                (fst (loadCategoryShapes demoEnv (s_category disc) demoWorld)))))
             = Some (sortByName demoEnv (replaceOrPush disc
                (fst (loadCategoryShapes demoEnv (s_category disc) demoWorld))))"
    unfolding c demo_loadCategoryShapes fst_conv srt by (simp add: demo_defs)
  have first: "fst (addShapeToLibrary demoEnv disc demoWorld) = Inr ''lib/shapes/basic.json''"
    by code_simp
  have st: "stringifyShapes demoEnv = demoShapesText"
    by (simp add: demoEnv_def)
  show ?thesis
    using addShapeToLibrary_idempotent[OF one rt first] first
    by (simp add: c demo_loadCategoryShapes srt st demo_paths)
qed

section \<open>Facts about the preview assets\<close>

lemma console_error_fields [simp]:
  "refuses (console_error t e w) = refuses w"
  "files (console_error t e w) = files w"
  "dirs (console_error t e w) = dirs w"
  "effects (console_error t e w) = effects w"
  "relocations (console_error t e w) = relocations w"
  "errlog (console_error t e w) = errlog w @ [(t, e)]"
  by (simp_all add: console_error_def relocations_def)

lemma renameSync_Inr:
  assumes "renameSync src dst w = Inr w'"
  shows "refuses w' = refuses w" and "dirs w' = dirs w"
    and "relocations w' = Suc (relocations w)"
  using assms
  by (auto simp: renameSync_def relocations_def split: option.splits)

lemma copyFileSync_Inr:
  assumes "copyFileSync src dst w = Inr w'"
  shows "refuses w' = refuses w" and "dirs w' = dirs w"
    and "relocations w' = Suc (relocations w)"
  using assms
  by (auto simp: copyFileSync_def relocations_def split: option.splits)

lemma mkdirSync_Inr:
  assumes "mkdirSync p w = Inr w'"
  shows "refuses w' = refuses w" and "files w' = files w"
    and "relocations w' = relocations w"
  using assms
  by (auto simp: mkdirSync_def relocations_def split: option.splits if_splits)

lemma mkdirSync_accepted:
  "refuses w (OpMkdir p) = None \<Longrightarrow> \<not> existsSync p w \<Longrightarrow> \<exists>w'. mkdirSync p w = Inr w'"
  by (simp add: mkdirSync_def existsSync_def)

lemma searchLoop_inv:
  "searchLoop E c s ep cats (n, w) = (n', w') \<Longrightarrow>
     refuses w' = refuses w \<and> n' + relocations w = n + relocations w'"
proof (induction cats arbitrary: n w)
  case Nil
  then show ?case by simp
next
  case (Cons sc cats)
  let ?sp = "previewPath E sc (s_id s)"
  show ?case
  proof (cases "existsSync ?sp w \<and> sc \<noteq> c")
    case False
    with Cons.prems have "searchLoop E c s ep cats (n, w) = (n', w')"
      by (auto simp: Let_def)
    then show ?thesis by (rule Cons.IH)
  next
    case True
    show ?thesis
    proof (cases "renameSync ?sp ep w")
      case (Inr w2)
      with True Cons.prems have "n' = n + 1" "w' = w2"
        by (auto simp: Let_def)
      with renameSync_Inr[OF Inr] show ?thesis by simp
    next
      case (Inl e)
      show ?thesis
      proof (cases "copyFileSync ?sp ep w")
        case (Inr w2)
        with True Inl Cons.prems have "n' = n + 1" "w' = w2"
          by (auto simp: Let_def)
        with copyFileSync_Inr[OF Inr] show ?thesis by simp
      next
        case copy: (Inl ce)
        with True Inl Cons.prems
        have "searchLoop E c s ep cats
                (n, console_error (''[ShapeSaver] Failed to repair '' @ s_id s @ '':'') ce w) = (n', w')"
          by (auto simp: Let_def)
        from Cons.IH[OF this] show ?thesis by simp
      qed
    qed
  qed
qed

lemma shapeLoop_inv:
  "shapeLoop E cats c shapes (n, w) = (n', w') \<Longrightarrow>
     refuses w' = refuses w \<and> n' + relocations w = n + relocations w'"
proof (induction shapes arbitrary: n w)
  case Nil
  then show ?case by simp
next
  case (Cons s shapes)
  let ?ep = "join (getAssetsDir E) (s_preview s)"
  show ?case
  proof (cases "existsSync ?ep w")
    case True
    with Cons.prems have "shapeLoop E cats c shapes (n, w) = (n', w')"
      by (simp add: Let_def)
    then show ?thesis by (rule Cons.IH)
  next
    case False
    obtain n1 w1 where s1: "searchLoop E c s ?ep cats (n, w) = (n1, w1)"
      by (cases "searchLoop E c s ?ep cats (n, w)")
    with False Cons.prems have "shapeLoop E cats c shapes (n1, w1) = (n', w')"
      by (simp add: Let_def)
    from Cons.IH[OF this] searchLoop_inv[OF s1] show ?thesis by simp
  qed
qed

lemma categoryLoop_step:
  assumes "loadCategoryShapes E c w = (shapes, w1)"
  shows "categoryLoop E cats (c # rest) (n, w) =
     (case (if \<not> existsSync (join (getAssetsDir E) c) w1 then mkdirSync (join (getAssetsDir E) c) w1
            else Inr w1) of
        Inl e \<Rightarrow> (Inl e, w1)
      | Inr w2 \<Rightarrow> categoryLoop E cats rest (shapeLoop E cats c shapes (n, w2)))"
  using assms by (simp add: Let_def)

lemma categoryLoop_inv:
  "categoryLoop E cats rest (n, w) = (Inr n', w') \<Longrightarrow>
     refuses w' = refuses w \<and> n' + relocations w = n + relocations w'"
proof (induction rest arbitrary: n w)
  case Nil
  then show ?case by simp
next
  case (Cons c rest)
  obtain shapes w1 where l: "loadCategoryShapes E c w = (shapes, w1)"
    by (cases "loadCategoryShapes E c w")
  note fr = loadCategoryShapes_frame[OF l]
  have rel1: "relocations w1 = relocations w"
    using fr by (simp add: relocations_def)
  let ?d = "join (getAssetsDir E) c"
  obtain w2 where w2: "(if \<not> existsSync ?d w1 then mkdirSync ?d w1 else Inr w1) = Inr w2"
    using Cons.prems categoryLoop_step[OF l, of cats rest n]
    by (cases "if \<not> existsSync ?d w1 then mkdirSync ?d w1 else Inr w1") auto
  have w2': "refuses w2 = refuses w \<and> relocations w2 = relocations w"
    using w2 fr rel1 by (auto split: if_splits dest: mkdirSync_Inr)
  obtain n3 w3 where s: "shapeLoop E cats c shapes (n, w2) = (n3, w3)"
    by (cases "shapeLoop E cats c shapes (n, w2)")
  have "categoryLoop E cats rest (n3, w3) = (Inr n', w')"
    using Cons.prems categoryLoop_step[OF l, of cats rest n] w2 s by simp
  from Cons.IH[OF this] shapeLoop_inv[OF s] w2' show ?case by simp
qed

lemma categoryLoop_returns:
  "\<forall>c. refuses w (OpMkdir (join (getAssetsDir E) c)) = None \<Longrightarrow>
     \<exists>n' w'. categoryLoop E cats rest (n, w) = (Inr n', w')"
proof (induction rest arbitrary: n w)
  case Nil
  then show ?case by simp
next
  case (Cons c rest)
  obtain shapes w1 where l: "loadCategoryShapes E c w = (shapes, w1)"
    by (cases "loadCategoryShapes E c w")
  note fr = loadCategoryShapes_frame[OF l]
  let ?d = "join (getAssetsDir E) c"
  have "refuses w1 (OpMkdir ?d) = None"
    using Cons.prems fr by simp
  then obtain w2 where w2: "(if \<not> existsSync ?d w1 then mkdirSync ?d w1 else Inr w1) = Inr w2"
    using mkdirSync_accepted[of w1 ?d] by (cases "existsSync ?d w1") auto
  have r2: "refuses w2 = refuses w"
    using w2 fr by (auto split: if_splits dest: mkdirSync_Inr)
  obtain n3 w3 where s: "shapeLoop E cats c shapes (n, w2) = (n3, w3)"
    by (cases "shapeLoop E cats c shapes (n, w2)")
  have "\<forall>c. refuses w3 (OpMkdir (join (getAssetsDir E) c)) = None"
    using shapeLoop_inv[OF s] r2 Cons.prems by simp
  from Cons.IH[OF this, of n3]
  show ?case
    using categoryLoop_step[OF l, of cats rest n] w2 s by simp
qed

lemma getCategoryIds_returns:
  assumes "existsSync (getCategoriesFilePath E) w \<or> refuses w (OpWrite (getCategoriesFilePath E)) = None"
  shows "\<exists>ids w'. getCategoryIds E w = (Inr ids, w')"
  using loadCategories_returns[OF assms] by (auto simp: getCategoryIds_def)

lemma getCategoryIds_frame:
  assumes "getCategoryIds E w = (r, w')"
  shows "dirs w' = dirs w" and "refuses w' = refuses w"
    and "p \<noteq> getCategoriesFilePath E \<Longrightarrow> files w' p = files w p"
    and "relocations w' = relocations w"
proof -
  obtain r1 where l: "loadCategories E w = (r1, w')"
    using assms by (cases "loadCategories E w") (auto simp: getCategoryIds_def split: sum.splits)
  show "dirs w' = dirs w" and "refuses w' = refuses w"
    and "p \<noteq> getCategoriesFilePath E \<Longrightarrow> files w' p = files w p"
    using loadCategories_frame[OF l] by simp_all
  show "relocations w' = relocations w"
    using l
    by (auto simp: loadCategories_def Let_def saveCategories_def writeFileSync_def relocations_def
        split: if_splits option.splits sum.splits prod.splits)
qed

lemma movePreviewToCategory_unfold:
  assumes "existsSync (join (getAssetsDir E) newCategory) w
           \<or> refuses w (OpMkdir (join (getAssetsDir E) newCategory)) = None"
  shows "\<exists>w1. files w1 = files w \<and> refuses w1 = refuses w \<and> errlog w1 = errlog w
           \<and> relocations w1 = relocations w
           \<and> movePreviewToCategory E shape oldCategory newCategory w =
     (Inr (previewName newCategory (s_id shape)),
      if existsSync (previewPath E oldCategory (s_id shape)) w1 then
        (case renameSync (previewPath E oldCategory (s_id shape))
                (previewPath E newCategory (s_id shape)) w1 of
           Inr w2 \<Rightarrow> w2
         | Inl e \<Rightarrow>
             (case copyFileSync (previewPath E oldCategory (s_id shape))
                     (previewPath E newCategory (s_id shape)) w1 of
                Inr w2 \<Rightarrow> w2
              | Inl copyError \<Rightarrow> console_error ''[ShapeSaver] Failed to move preview:'' copyError w1))
      else w1)"
proof (cases "existsSync (join (getAssetsDir E) newCategory) w")
  case True
  then show ?thesis
    by (intro exI[of _ w]) (simp add: movePreviewToCategory_def Let_def)
next
  case False
  with assms have "refuses w (OpMkdir (join (getAssetsDir E) newCategory)) = None"
    by simp
  then obtain w1 where m: "mkdirSync (join (getAssetsDir E) newCategory) w = Inr w1"
    using mkdirSync_accepted False by blast
  have "errlog w1 = errlog w"
    using m by (auto simp: mkdirSync_def split: option.splits if_splits)
  with mkdirSync_Inr[OF m] False m show ?thesis
    by (intro exI[of _ w1]) (simp add: movePreviewToCategory_def Let_def)
qed

lemma demo_getCategoryIds:
  "fst (getCategoryIds demoEnv demoWorld) = Inr [''basic'', ''arrows'', ''blank'']"
  by (simp add: getCategoryIds_def demo_loadCategories basic_def arrows_def blank_def)

lemma marked_getCategoryIds:
  "fst (getCategoryIds demoEnv markedWorld) = Inr [''basic'', ''arrows'', ''blank'']"
  by (simp add: getCategoryIds_def loadCategories_def markedWorld_def demo_defs path_defs fs_defs)

text \<open>
  Claim C7. When the folder of the new category exists or can be created,
  \<open>movePreviewToCategory\<close> returns the relative path \<open><newCategory>/<id>.png\<close>,
  whether or not a file was moved: also when there is no preview at the old path, in which
  case no file changes. When the rename is refused and the copy goes through, the source
  file is still in place afterwards and the destination holds the same bytes.
\<close>

theorem movePreviewToCategory_returns_new_path:
  assumes "existsSync (join (getAssetsDir E) newCategory) w
           \<or> refuses w (OpMkdir (join (getAssetsDir E) newCategory)) = None"
  shows "fst (movePreviewToCategory E shape oldCategory newCategory w)
           = Inr (previewName newCategory (s_id shape))
       \<and> (\<forall>content.
             files w (previewPath E oldCategory (s_id shape)) = Some content
             \<and> refuses w (OpRename (previewPath E oldCategory (s_id shape))
                                   (previewPath E newCategory (s_id shape))) \<noteq> None
             \<and> refuses w (OpCopy (previewPath E oldCategory (s_id shape))
                                 (previewPath E newCategory (s_id shape))) = None
             \<longrightarrow>
             files (snd (movePreviewToCategory E shape oldCategory newCategory w))
                   (previewPath E oldCategory (s_id shape)) = Some content
             \<and> files (snd (movePreviewToCategory E shape oldCategory newCategory w))
                   (previewPath E newCategory (s_id shape)) = Some content)
       \<and> (files w (previewPath E oldCategory (s_id shape)) = None \<longrightarrow>
             files (snd (movePreviewToCategory E shape oldCategory newCategory w)) = files w)"
proof -
  let ?old = "previewPath E oldCategory (s_id shape)"
  let ?new = "previewPath E newCategory (s_id shape)"
  from movePreviewToCategory_unfold[OF assms, of shape oldCategory]
  obtain w1 where w1: "files w1 = files w" "refuses w1 = refuses w"
    and m: "movePreviewToCategory E shape oldCategory newCategory w =
     (Inr (previewName newCategory (s_id shape)),
      if existsSync ?old w1 then
        (case renameSync ?old ?new w1 of
           Inr w2 \<Rightarrow> w2
         | Inl e \<Rightarrow>
             (case copyFileSync ?old ?new w1 of
                Inr w2 \<Rightarrow> w2
              | Inl copyError \<Rightarrow> console_error ''[ShapeSaver] Failed to move preview:'' copyError w1))
      else w1)"
    by blast
  have copy: "files (snd (movePreviewToCategory E shape oldCategory newCategory w)) ?old = Some content
      \<and> files (snd (movePreviewToCategory E shape oldCategory newCategory w)) ?new = Some content"
    if "files w ?old = Some content" and "refuses w (OpRename ?old ?new) \<noteq> None"
      and "refuses w (OpCopy ?old ?new) = None" for content
    using that w1
    by (auto simp: m existsSync_def renameSync_def copyFileSync_def)
  have none: "files (snd (movePreviewToCategory E shape oldCategory newCategory w)) = files w"
    if "files w ?old = None"
    using that w1
    by (auto simp: m renameSync_def copyFileSync_def split: option.splits)
  show ?thesis
    using copy none by (simp add: m)
qed

theorem movePreviewToCategory_returns_new_path_witness:
  "fst (movePreviewToCategory demoEnv bolt ''basic'' ''arrows'' crossDevice) = Inr ''arrows/bolt.png''
   \<and> files (snd (movePreviewToCategory demoEnv bolt ''basic'' ''arrows'' crossDevice))
        ''lib/assets/basic/bolt.png'' = Some ''PNG bolt''
   \<and> files (snd (movePreviewToCategory demoEnv bolt ''basic'' ''arrows'' crossDevice))
        ''lib/assets/arrows/bolt.png'' = Some ''PNG bolt''
   \<and> fst (movePreviewToCategory demoEnv disc ''basic'' ''arrows'' demoWorld) = Inr ''arrows/disc.png''
   \<and> files (snd (movePreviewToCategory demoEnv disc ''basic'' ''arrows'' demoWorld)) = files demoWorld"
proof -
  have d: "existsSync (join (getAssetsDir demoEnv) ''arrows'') crossDevice
           \<or> refuses crossDevice (OpMkdir (join (getAssetsDir demoEnv) ''arrows'')) = None"
    "existsSync (join (getAssetsDir demoEnv) ''arrows'') demoWorld
           \<or> refuses demoWorld (OpMkdir (join (getAssetsDir demoEnv) ''arrows'')) = None"
    by (simp_all add: crossDevice_def demoWorld_def)
  have i: "s_id bolt = ''bolt''" "s_id disc = ''disc''"
    by (simp_all add: bolt_def disc_def)
  have f: "files crossDevice ''lib/assets/basic/bolt.png'' = Some ''PNG bolt''"
    "files demoWorld ''lib/assets/basic/disc.png'' = None"
    by (simp_all add: crossDevice_def demoWorld_def)
  have r: "refuses crossDevice (OpRename ''lib/assets/basic/bolt.png'' ''lib/assets/arrows/bolt.png'') \<noteq> None"
    "refuses crossDevice (OpCopy ''lib/assets/basic/bolt.png'' ''lib/assets/arrows/bolt.png'') = None"
    by (simp_all add: crossDevice_def)
  show ?thesis
    using movePreviewToCategory_returns_new_path[OF d(1), of bolt "''basic''"]
      movePreviewToCategory_returns_new_path[OF d(2), of disc "''basic''"] f r
    by (simp add: i demo_paths join_def previewPath_def previewName_def)
qed

subsection \<open>How a run changes the world\<close>

lemma evolves_refl: "evolves u u"
  by (simp add: evolves_def)

lemma evolves_trans:
  assumes "evolves u u1" and "evolves u1 u2"
  shows "evolves u u2"
proof -
  from assms(1) obtain m1 n1 where 1: "refuses u1 = refuses u" "errlog u1 = errlog u @ m1"
    "effects u1 = effects u @ n1"
    "\<And>p. (\<forall>opn \<in> set n1. \<not> touches p opn) \<Longrightarrow> files u1 p = files u p \<and> dirs u1 p = dirs u p"
    unfolding evolves_def by blast
  from assms(2) obtain m2 n2 where 2: "refuses u2 = refuses u1" "errlog u2 = errlog u1 @ m2"
    "effects u2 = effects u1 @ n2"
    "\<And>p. (\<forall>opn \<in> set n2. \<not> touches p opn) \<Longrightarrow> files u2 p = files u1 p \<and> dirs u2 p = dirs u1 p"
    unfolding evolves_def by blast
  have "effects u2 = effects u @ (n1 @ n2)"
    using 1(3) 2(3) by simp
  moreover have "files u2 p = files u p \<and> dirs u2 p = dirs u p"
    if "\<forall>opn \<in> set (n1 @ n2). \<not> touches p opn" for p
    using that 1(4)[of p] 2(4)[of p] by simp
  moreover have "errlog u2 = errlog u @ (m1 @ m2)"
    using 1(2) 2(2) by simp
  ultimately show ?thesis
    unfolding evolves_def using 1(1) 2(1) by metis
qed

lemma evolves_console_error: "evolves u (console_error t e u)"
  by (simp add: evolves_def console_error_def)

lemma evolves_write: "writeFileSync p c u = Inr u' \<Longrightarrow> evolves u u'"
  by (auto simp: writeFileSync_def evolves_def split: option.splits)

lemma evolves_mkdir: "mkdirSync p u = Inr u' \<Longrightarrow> evolves u u'"
  by (auto simp: mkdirSync_def evolves_def split: option.splits if_splits)

lemma evolves_rename: "renameSync src dst u = Inr u' \<Longrightarrow> evolves u u'"
  by (auto simp: renameSync_def evolves_def split: option.splits)

lemma evolves_copy: "copyFileSync src dst u = Inr u' \<Longrightarrow> evolves u u'"
  by (auto simp: copyFileSync_def evolves_def split: option.splits)

lemma evolves_refuses: "evolves u u' \<Longrightarrow> refuses u' = refuses u"
  by (simp add: evolves_def)

lemma evolves_errlog: "evolves u u' \<Longrightarrow> set (errlog u) \<subseteq> set (errlog u')"
  by (auto simp: evolves_def)

lemma evolves_errlog_take: "evolves u u' \<Longrightarrow> take (length (errlog u)) (errlog u') = errlog u"
  by (auto simp: evolves_def)

lemma evolves_newEffects:
  assumes "evolves u u1" and "evolves u1 u2"
  shows "newEffects u u2 = newEffects u u1 @ newEffects u1 u2"
  using assms by (auto simp: evolves_def newEffects_def)

lemma disturbed_trans:
  assumes "evolves u u1" and "evolves u1 u2"
  shows "disturbed ps u u2 \<longleftrightarrow> disturbed ps u u1 \<or> disturbed ps u1 u2"
  by (simp add: disturbed_def evolves_newEffects[OF assms])

lemma evolves_untouched:
  assumes "evolves u u'" and "\<not> disturbed ps u u'" and "p \<in> set ps"
  shows "files u' p = files u p" and "dirs u' p = dirs u p" and "existsSync p u' = existsSync p u"
proof -
  from assms(1) obtain new where n: "effects u' = effects u @ new"
    "\<And>q. (\<forall>opn \<in> set new. \<not> touches q opn) \<Longrightarrow> files u' q = files u q \<and> dirs u' q = dirs u q"
    unfolding evolves_def by blast
  have "newEffects u u' = new"
    using n(1) by (simp add: newEffects_def)
  with assms(2,3) have "\<forall>opn \<in> set new. \<not> touches p opn"
    by (auto simp: disturbed_def list_ex_iff)
  from n(2)[OF this] show "files u' p = files u p" and "dirs u' p = dirs u p"
    and "existsSync p u' = existsSync p u"
    by (simp_all add: existsSync_def)
qed

lemma evolves_loadCategoryShapes: "evolves u (snd (loadCategoryShapes E c u))"
  by (auto simp: loadCategoryShapes_def Let_def evolves_refl evolves_console_error
      split: sum.splits option.splits)

lemma newEffects_loadCategoryShapes: "newEffects u (snd (loadCategoryShapes E c u)) = []"
  by (auto simp: loadCategoryShapes_def Let_def newEffects_def console_error_def
      split: sum.splits option.splits)

lemma evolves_searchLoop:
  "evolves u (snd (searchLoop E c s ep cats (n, u)))"
proof (induction cats arbitrary: n u)
  case Nil
  show ?case by (simp add: evolves_refl)
next
  case (Cons sc cats)
  let ?sp = "previewPath E sc (s_id s)"
  show ?case
  proof (cases "existsSync ?sp u \<and> sc \<noteq> c")
    case False
    then show ?thesis
      using Cons.IH[where n=n and u="u"] by (auto simp: Let_def)
  next
    case True
    show ?thesis
    proof (cases "renameSync ?sp ep u")
      case (Inr u2)
      with True show ?thesis
        by (simp add: Let_def evolves_rename)
    next
      case (Inl e)
      show ?thesis
      proof (cases "copyFileSync ?sp ep u")
        case (Inr u2)
        with True Inl show ?thesis
          by (simp add: Let_def evolves_copy)
      next
        case copy: (Inl ce)
        let ?u = "console_error (''[ShapeSaver] Failed to repair '' @ s_id s @ '':'') ce u"
        have "evolves u ?u" by (rule evolves_console_error)
        from evolves_trans[OF this Cons.IH[where n=n and u="?u"]] True Inl copy show ?thesis
          by (simp add: Let_def)
      qed
    qed
  qed
qed

lemma evolves_shapeLoop:
  "evolves u (snd (shapeLoop E cats c shapes (n, u)))"
proof (induction shapes arbitrary: n u)
  case Nil
  show ?case by (simp add: evolves_refl)
next
  case (Cons s shapes)
  let ?ep = "join (getAssetsDir E) (s_preview s)"
  show ?case
  proof (cases "existsSync ?ep u")
    case True
    then show ?thesis
      using Cons.IH[where n=n and u="u"] by (simp add: Let_def)
  next
    case False
    obtain n1 u1 where s1: "searchLoop E c s ?ep cats (n, u) = (n1, u1)"
      by (cases "searchLoop E c s ?ep cats (n, u)")
    have "evolves u u1"
      using evolves_searchLoop[of u E c s ?ep cats n] s1 by simp
    from evolves_trans[OF this Cons.IH[where n=n1 and u="u1"]] False s1 show ?thesis
      by (simp add: Let_def)
  qed
qed

lemma evolves_categoryLoop:
  "evolves u (snd (categoryLoop E cats rest (n, u)))"
proof (induction rest arbitrary: n u)
  case Nil
  show ?case by (simp add: evolves_refl)
next
  case (Cons c rest)
  obtain shapes u1 where l: "loadCategoryShapes E c u = (shapes, u1)"
    by (cases "loadCategoryShapes E c u")
  have e1: "evolves u u1"
    using evolves_loadCategoryShapes[of u E c] l by simp
  let ?d = "join (getAssetsDir E) c"
  show ?case
  proof (cases "if \<not> existsSync ?d u1 then mkdirSync ?d u1 else Inr u1")
    case (Inl e)
    then show ?thesis
      using categoryLoop_step[OF l, of cats rest n] e1 by simp
  next
    case (Inr u2)
    have e2: "evolves u1 u2"
      using Inr by (auto split: if_splits simp: evolves_refl evolves_mkdir)
    obtain n3 u3 where s: "shapeLoop E cats c shapes (n, u2) = (n3, u3)"
      by (cases "shapeLoop E cats c shapes (n, u2)")
    have e3: "evolves u2 u3"
      using evolves_shapeLoop[of u2 E cats c shapes n] s by simp
    have "evolves u u3"
      using e1 e2 e3 evolves_trans by blast
    from evolves_trans[OF this Cons.IH[where n=n3 and u="u3"]] show ?thesis
      using categoryLoop_step[OF l, of cats rest n] Inr s by simp
  qed
qed

lemma evolves_loadCategories: "evolves u (snd (loadCategories E u))"
  by (auto simp: loadCategories_def Let_def saveCategories_def evolves_refl evolves_console_error
      evolves_write split: sum.splits option.splits)

lemma evolves_getCategoryIds: "evolves u (snd (getCategoryIds E u))"
  using evolves_loadCategories[of u E]
  by (auto simp: getCategoryIds_def split: prod.splits sum.splits)

lemma renameSync_Inl_same:
  assumes "refuses u' = refuses u" and "files u' src = files u src"
    and "renameSync src dst u = Inl e"
  shows "renameSync src dst u' = Inl e"
  using assms by (auto simp: renameSync_def split: option.splits)

lemma copyFileSync_Inl_same:
  assumes "refuses u' = refuses u" and "files u' src = files u src"
    and "copyFileSync src dst u = Inl e"
  shows "copyFileSync src dst u' = Inl e"
  using assms by (auto simp: copyFileSync_def split: option.splits)

lemma renameSync_newEffects: "renameSync src dst u = Inr u' \<Longrightarrow> newEffects u u' = [OpRename src dst]"
  by (auto simp: renameSync_def newEffects_def split: option.splits)

lemma copyFileSync_newEffects: "copyFileSync src dst u = Inr u' \<Longrightarrow> newEffects u u' = [OpCopy src dst]"
  by (auto simp: copyFileSync_def newEffects_def split: option.splits)

lemma mkdirSync_newEffects: "mkdirSync p u = Inr u' \<Longrightarrow> newEffects u u' = [OpMkdir p]"
  by (auto simp: mkdirSync_def newEffects_def split: option.splits if_splits)

lemma newEffects_console_error [simp]:
  "newEffects (console_error t e u) u' = newEffects u u'"
  "newEffects u (console_error t e u') = newEffects u u'"
  by (simp_all add: newEffects_def)

lemma disturbed_console_error [simp]:
  "disturbed ps (console_error t e u) u' = disturbed ps u u'"
  by (simp add: disturbed_def)

lemma existsSync_console_error [simp]:
  "existsSync p (console_error t e u) = existsSync p u"
  by (simp add: existsSync_def)

lemma searchLoop_logs_copy_error:
  assumes "sc \<in> set cats" and "sc \<noteq> c"
    and "existsSync (previewPath E sc (s_id s)) u"
    and "renameSync (previewPath E sc (s_id s)) ep u = Inl e"
    and "copyFileSync (previewPath E sc (s_id s)) ep u = Inl ce"
  shows "(''[ShapeSaver] Failed to repair '' @ s_id s @ '':'', ce)
           \<in> set (errlog (snd (searchLoop E c s ep cats (n, u))))
         \<or> disturbed [ep, previewPath E sc (s_id s)] u (snd (searchLoop E c s ep cats (n, u)))"
  using assms
proof (induction cats arbitrary: n u)
  case Nil
  then show ?case by simp
next
  case (Cons h cats)
  let ?sp = "previewPath E sc (s_id s)"
  let ?hp = "previewPath E h (s_id s)"
  let ?txt = "''[ShapeSaver] Failed to repair '' @ s_id s @ '':''"
  show ?case
  proof (cases "existsSync ?hp u \<and> h \<noteq> c")
    case False
    with Cons.prems have "h \<noteq> sc" by auto
    with Cons.prems have "sc \<in> set cats" by simp
    from Cons.IH[OF this Cons.prems(2-5), of n] False show ?thesis
      by (auto simp: Let_def)
  next
    case True
    show ?thesis
    proof (cases "renameSync ?hp ep u")
      case (Inr u2)
      with True have "snd (searchLoop E c s ep (h # cats) (n, u)) = u2"
        by (simp add: Let_def)
      moreover have "disturbed [ep, ?sp] u u2"
        using renameSync_newEffects[OF Inr] by (simp add: disturbed_def)
      ultimately show ?thesis by simp
    next
      case (Inl e1)
      show ?thesis
      proof (cases "copyFileSync ?hp ep u")
        case (Inr u2)
        with True Inl have "snd (searchLoop E c s ep (h # cats) (n, u)) = u2"
          by (simp add: Let_def)
        moreover have "disturbed [ep, ?sp] u u2"
          using copyFileSync_newEffects[OF Inr] by (simp add: disturbed_def)
        ultimately show ?thesis by simp
      next
        case copy: (Inl ce1)
        let ?u = "console_error ?txt ce1 u"
        have unf: "searchLoop E c s ep (h # cats) (n, u) = searchLoop E c s ep cats (n, ?u)"
          using True Inl copy by (simp add: Let_def)
        show ?thesis
        proof (cases "h = sc")
          case True
          with copy Cons.prems(5) have "ce1 = ce" by simp
          then have "(?txt, ce) \<in> set (errlog ?u)" by simp
          with evolves_errlog[OF evolves_searchLoop[of ?u E c s ep cats n]] show ?thesis
            unfolding unf by blast
        next
          case False
          with Cons.prems have in_rest: "sc \<in> set cats" by simp
          have r: "renameSync ?sp ep ?u = Inl e"
            using Cons.prems(4) by (intro renameSync_Inl_same[of ?u u]) simp_all
          have cp: "copyFileSync ?sp ep ?u = Inl ce"
            using Cons.prems(5) by (intro copyFileSync_Inl_same[of ?u u]) simp_all
          have ex: "existsSync ?sp ?u"
            using Cons.prems(3) by simp
          from Cons.IH[OF in_rest Cons.prems(2) ex r cp, of n] show ?thesis
            unfolding unf by simp
        qed
      qed
    qed
  qed
qed

lemma shapeLoop_logs_copy_error:
  assumes "s \<in> set shapes" and "sc \<in> set cats" and "sc \<noteq> c"
    and "\<not> existsSync (join (getAssetsDir E) (s_preview s)) u"
    and "existsSync (previewPath E sc (s_id s)) u"
    and "renameSync (previewPath E sc (s_id s)) (join (getAssetsDir E) (s_preview s)) u = Inl e"
    and "copyFileSync (previewPath E sc (s_id s)) (join (getAssetsDir E) (s_preview s)) u = Inl ce"
  shows "(''[ShapeSaver] Failed to repair '' @ s_id s @ '':'', ce)
           \<in> set (errlog (snd (shapeLoop E cats c shapes (n, u))))
         \<or> disturbed [join (getAssetsDir E) (s_preview s), previewPath E sc (s_id s)] u
              (snd (shapeLoop E cats c shapes (n, u)))"
  using assms
proof (induction shapes arbitrary: n u)
  case Nil
  then show ?case by simp
next
  case (Cons h shapes)
  let ?ep = "join (getAssetsDir E) (s_preview s)"
  let ?sp = "previewPath E sc (s_id s)"
  let ?hep = "join (getAssetsDir E) (s_preview h)"
  let ?ent = "(''[ShapeSaver] Failed to repair '' @ s_id s @ '':'', ce)"
  define u1 n1 where "u1 = (if \<not> existsSync ?hep u then snd (searchLoop E c h ?hep cats (n, u)) else u)"
    and "n1 = (if \<not> existsSync ?hep u then fst (searchLoop E c h ?hep cats (n, u)) else n)"
  have unf: "shapeLoop E cats c (h # shapes) (n, u) = shapeLoop E cats c shapes (n1, u1)"
    by (simp add: u1_def n1_def Let_def)
  let ?u' = "snd (shapeLoop E cats c shapes (n1, u1))"
  have e1: "evolves u u1"
    by (simp add: u1_def evolves_refl evolves_searchLoop)
  have e2: "evolves u1 ?u'"
    by (rule evolves_shapeLoop)
  have first: "?ent \<in> set (errlog u1) \<or> disturbed [?ep, ?sp] u u1" if "h = s"
  proof -
    from that Cons.prems(4) have "u1 = snd (searchLoop E c s ?ep cats (n, u))"
      by (simp add: u1_def)
    with searchLoop_logs_copy_error[OF Cons.prems(2,3,5,6,7), of n] show ?thesis
      by simp
  qed
  show ?case
  proof (cases "disturbed [?ep, ?sp] u u1")
    case True
    then show ?thesis
      unfolding unf using disturbed_trans[OF e1 e2] by blast
  next
    case False
    show ?thesis
    proof (cases "?ent \<in> set (errlog u1)")
      case True
      with evolves_errlog[OF e2] show ?thesis
        unfolding unf by blast
    next
      case notyet: False
      with False first have "h \<noteq> s" by blast
      with Cons.prems(1) have in_rest: "s \<in> set shapes" by simp
      have same: "files u1 ?sp = files u ?sp" "existsSync ?sp u1 = existsSync ?sp u"
        "existsSync ?ep u1 = existsSync ?ep u"
        using evolves_untouched[OF e1 False] by simp_all
      have r: "renameSync ?sp ?ep u1 = Inl e"
        using Cons.prems(6) same evolves_refuses[OF e1] by (intro renameSync_Inl_same[of u1 u]) simp_all
      have cp: "copyFileSync ?sp ?ep u1 = Inl ce"
        using Cons.prems(7) same evolves_refuses[OF e1] by (intro copyFileSync_Inl_same[of u1 u]) simp_all
      from Cons.IH[OF in_rest Cons.prems(2,3) _ _ r cp, of n1] same Cons.prems(4,5)
      have "?ent \<in> set (errlog ?u') \<or> disturbed [?ep, ?sp] u1 ?u'"
        by simp
      then show ?thesis
        unfolding unf using disturbed_trans[OF e1 e2] by blast
    qed
  qed
qed

lemma shapes_file_not_asset: "getCategoryFilePath E c \<noteq> join (getAssetsDir E) x"
  by (simp add: getCategoryFilePath_def getShapesDir_def getAssetsDir_def join_def)

lemma searchLoop_assets_only:
  assumes "\<forall>x. p \<noteq> join (getAssetsDir E) x"
  shows "\<not> disturbed [p] u (snd (searchLoop E c s (join (getAssetsDir E) pv) cats (n, u)))"
proof (induction cats arbitrary: n u)
  case Nil
  show ?case by (simp add: disturbed_def newEffects_def)
next
  case (Cons sc cats)
  let ?sp = "previewPath E sc (s_id s)"
  let ?ep = "join (getAssetsDir E) pv"
  have ne: "p \<noteq> ?sp" "p \<noteq> ?ep"
    using assms by (simp_all add: previewPath_def)
  show ?case
  proof (cases "existsSync ?sp u \<and> sc \<noteq> c")
    case False
    then show ?thesis
      using Cons.IH[where n=n and u="u"] by (auto simp: Let_def)
  next
    case True
    show ?thesis
    proof (cases "renameSync ?sp ?ep u")
      case (Inr u2)
      with True have "snd (searchLoop E c s ?ep (sc # cats) (n, u)) = u2"
        by (simp add: Let_def)
      then show ?thesis
        using renameSync_newEffects[OF Inr] ne by (simp add: disturbed_def)
    next
      case (Inl e)
      show ?thesis
      proof (cases "copyFileSync ?sp ?ep u")
        case (Inr u2)
        with True Inl have "snd (searchLoop E c s ?ep (sc # cats) (n, u)) = u2"
          by (simp add: Let_def)
        then show ?thesis
          using copyFileSync_newEffects[OF Inr] ne by (simp add: disturbed_def)
      next
        case copy: (Inl ce)
        let ?u = "console_error (''[ShapeSaver] Failed to repair '' @ s_id s @ '':'') ce u"
        have unf: "searchLoop E c s ?ep (sc # cats) (n, u) = searchLoop E c s ?ep cats (n, ?u)"
          using True Inl copy by (simp add: Let_def)
        show ?thesis
          unfolding unf using Cons.IH[where n=n and u="?u"] by simp
      qed
    qed
  qed
qed

lemma shapeLoop_assets_only:
  assumes "\<forall>x. p \<noteq> join (getAssetsDir E) x"
  shows "\<not> disturbed [p] u (snd (shapeLoop E cats c shapes (n, u)))"
proof (induction shapes arbitrary: n u)
  case Nil
  show ?case by (simp add: disturbed_def newEffects_def)
next
  case (Cons s shapes)
  let ?ep = "join (getAssetsDir E) (s_preview s)"
  show ?case
  proof (cases "existsSync ?ep u")
    case True
    then show ?thesis
      using Cons.IH[where n=n and u="u"] by (simp add: Let_def)
  next
    case False
    obtain n1 u1 where s1: "searchLoop E c s ?ep cats (n, u) = (n1, u1)"
      by (cases "searchLoop E c s ?ep cats (n, u)")
    have unf: "shapeLoop E cats c (s # shapes) (n, u) = shapeLoop E cats c shapes (n1, u1)"
      using False s1 by (simp add: Let_def)
    have e1: "evolves u u1"
      using evolves_searchLoop[of u E c s ?ep cats n] s1 by simp
    have d1: "\<not> disturbed [p] u u1"
      using searchLoop_assets_only[OF assms, of u c s "s_preview s" cats n] s1 by simp
    show ?thesis
      unfolding unf
      using disturbed_trans[OF e1 evolves_shapeLoop[of u1 E cats c shapes n1], of "[p]"]
        d1 Cons.IH[where n=n1 and u="u1"] by simp
  qed
qed

text \<open>One round of the loop over the categories, when the loop completes.\<close>

lemma categoryLoop_round:
  assumes "categoryLoop E cats (h # rest) (n, u) = (Inr n', u')"
  obtains u2 n3 u3 where "evolves u u2"
    and "newEffects u u2 = [] \<or> newEffects u u2 = [OpMkdir (join (getAssetsDir E) h)]"
    and "set (errlog (snd (loadCategoryShapes E h u))) \<subseteq> set (errlog u2)"
    and "shapeLoop E cats h (fst (loadCategoryShapes E h u)) (n, u2) = (n3, u3)"
    and "categoryLoop E cats rest (n3, u3) = (Inr n', u')"
proof -
  obtain shapes u1 where l: "loadCategoryShapes E h u = (shapes, u1)"
    by (cases "loadCategoryShapes E h u")
  have e1: "evolves u u1" and n1: "newEffects u u1 = []"
    using evolves_loadCategoryShapes[of u E h] newEffects_loadCategoryShapes[of u E h] l by simp_all
  let ?d = "join (getAssetsDir E) h"
  from assms obtain u2 where w2: "(if \<not> existsSync ?d u1 then mkdirSync ?d u1 else Inr u1) = Inr u2"
    and rest: "categoryLoop E cats rest (shapeLoop E cats h shapes (n, u2)) = (Inr n', u')"
    unfolding categoryLoop_step[OF l] by (auto split: sum.splits)
  have e2: "evolves u1 u2"
    using w2 by (auto split: if_splits simp: evolves_refl evolves_mkdir)
  have n2: "newEffects u1 u2 = [] \<or> newEffects u1 u2 = [OpMkdir ?d]"
  proof (cases "existsSync ?d u1")
    case True
    with w2 show ?thesis by (simp add: newEffects_def)
  next
    case False
    with w2 have "mkdirSync ?d u1 = Inr u2" by simp
    from mkdirSync_newEffects[OF this] show ?thesis by simp
  qed
  obtain n3 u3 where s: "shapeLoop E cats h shapes (n, u2) = (n3, u3)"
    by (cases "shapeLoop E cats h shapes (n, u2)")
  have "evolves u u2"
    using e1 e2 by (rule evolves_trans)
  moreover have "newEffects u u2 = [] \<or> newEffects u u2 = [OpMkdir ?d]"
    using evolves_newEffects[OF e1 e2] n1 n2 by simp
  moreover have "set (errlog (snd (loadCategoryShapes E h u))) \<subseteq> set (errlog u2)"
    using evolves_errlog[OF e2] l by simp
  moreover have "shapeLoop E cats h (fst (loadCategoryShapes E h u)) (n, u2) = (n3, u3)"
    using s l by simp
  moreover have "categoryLoop E cats rest (n3, u3) = (Inr n', u')"
    using rest s by simp
  ultimately show ?thesis
    using that by blast
qed

text \<open>
  What \<open>loadCategoryShapes\<close> returns and logs depends on the shape file and on what the
  file system refuses only.
\<close>

lemma loadCategoryShapes_later:
  assumes "evolves u u'"
    and "files u' (getCategoryFilePath E c) = files u (getCategoryFilePath E c)"
    and "dirs u' (getCategoryFilePath E c) = dirs u (getCategoryFilePath E c)"
  shows "fst (loadCategoryShapes E c u') = fst (loadCategoryShapes E c u)"
    and "set (errlog (snd (loadCategoryShapes E c u))) \<subseteq> set (errlog (snd (loadCategoryShapes E c u')))"
proof -
  have r: "readFileSync (getCategoryFilePath E c) u' = readFileSync (getCategoryFilePath E c) u"
    unfolding readFileSync_def assms(2) evolves_refuses[OF assms(1)] ..
  have x: "existsSync (getCategoryFilePath E c) u' = existsSync (getCategoryFilePath E c) u"
    using assms(2,3) by (simp add: existsSync_def)
  show "fst (loadCategoryShapes E c u') = fst (loadCategoryShapes E c u)"
    by (simp add: loadCategoryShapes_def Let_def r x split: sum.splits option.splits)
  show "set (errlog (snd (loadCategoryShapes E c u))) \<subseteq> set (errlog (snd (loadCategoryShapes E c u')))"
    using evolves_errlog[OF assms(1)]
    by (auto simp: loadCategoryShapes_def Let_def r x split: sum.splits option.splits)
qed

lemma categoryLoop_round_shapes_file:
  assumes "evolves u u2"
    and "newEffects u u2 = [] \<or> newEffects u u2 = [OpMkdir (join (getAssetsDir E) h)]"
    and "shapeLoop E cats h shapes (n, u2) = (n3, u3)"
  shows "evolves u u3"
    and "files u3 (getCategoryFilePath E c) = files u (getCategoryFilePath E c)"
    and "dirs u3 (getCategoryFilePath E c) = dirs u (getCategoryFilePath E c)"
proof -
  let ?fp = "getCategoryFilePath E c"
  have e23: "evolves u2 u3"
    using evolves_shapeLoop[of u2 E cats h shapes n] assms(3) by simp
  show e: "evolves u u3"
    using assms(1) e23 by (rule evolves_trans)
  have "\<not> disturbed [?fp] u u2"
    using assms(2) shapes_file_not_asset[of E c h] by (auto simp: disturbed_def)
  moreover have "\<not> disturbed [?fp] u2 u3"
    using shapeLoop_assets_only[of ?fp E u2 cats h shapes n] shapes_file_not_asset[of E c] assms(3)
    by simp
  ultimately have "\<not> disturbed [?fp] u u3"
    using disturbed_trans[OF assms(1) e23] by simp
  from evolves_untouched(1,2)[OF e this, of ?fp]
  show "files u3 ?fp = files u ?fp" and "dirs u3 ?fp = dirs u ?fp"
    by simp_all
qed

lemma categoryLoop_logs_load:
  assumes "c \<in> set rest" and "categoryLoop E cats rest (n, u) = (Inr n', u')"
  shows "set (errlog (snd (loadCategoryShapes E c u))) \<subseteq> set (errlog u')"
  using assms
proof (induction rest arbitrary: n u)
  case Nil
  then show ?case by simp
next
  case (Cons h rest)
  from categoryLoop_round[OF Cons.prems(2)] obtain u2 n3 u3 where
    r: "evolves u u2"
      "newEffects u u2 = [] \<or> newEffects u u2 = [OpMkdir (join (getAssetsDir E) h)]"
      "set (errlog (snd (loadCategoryShapes E h u))) \<subseteq> set (errlog u2)"
      "shapeLoop E cats h (fst (loadCategoryShapes E h u)) (n, u2) = (n3, u3)"
      "categoryLoop E cats rest (n3, u3) = (Inr n', u')"
    by blast
  have e23: "evolves u2 u3"
    using evolves_shapeLoop[of u2 E cats h "fst (loadCategoryShapes E h u)" n] r(4) by simp
  have e3: "evolves u3 u'"
    using evolves_categoryLoop[of u3 E cats rest n3] r(5) by simp
  note fr = categoryLoop_round_shapes_file[OF r(1,2,4)]
  show ?case
  proof (cases "h = c")
    case True
    with r(3) evolves_errlog[OF e23] evolves_errlog[OF e3] show ?thesis
      by blast
  next
    case False
    with Cons.prems(1) have "c \<in> set rest" by simp
    from Cons.IH[OF this r(5)] loadCategoryShapes_later(2)[OF fr] show ?thesis
      by blast
  qed
qed

lemma categoryLoop_logs_copy_error:
  assumes "c \<in> set rest" and "categoryLoop E cats rest (n, u) = (Inr n', u')"
    and "s \<in> set (fst (loadCategoryShapes E c u))" and "sc \<in> set cats" and "sc \<noteq> c"
    and "\<not> existsSync (join (getAssetsDir E) (s_preview s)) u"
    and "existsSync (previewPath E sc (s_id s)) u"
    and "renameSync (previewPath E sc (s_id s)) (join (getAssetsDir E) (s_preview s)) u = Inl e"
    and "copyFileSync (previewPath E sc (s_id s)) (join (getAssetsDir E) (s_preview s)) u = Inl ce"
  shows "(''[ShapeSaver] Failed to repair '' @ s_id s @ '':'', ce) \<in> set (errlog u')
         \<or> disturbed [join (getAssetsDir E) (s_preview s), previewPath E sc (s_id s)] u u'"
  using assms
proof (induction rest arbitrary: n u)
  case Nil
  then show ?case by simp
next
  case (Cons h rest)
  let ?ep = "join (getAssetsDir E) (s_preview s)"
  let ?sp = "previewPath E sc (s_id s)"
  let ?ent = "(''[ShapeSaver] Failed to repair '' @ s_id s @ '':'', ce)"
  from categoryLoop_round[OF Cons.prems(2)] obtain u2 n3 u3 where
    r: "evolves u u2"
      "newEffects u u2 = [] \<or> newEffects u u2 = [OpMkdir (join (getAssetsDir E) h)]"
      "set (errlog (snd (loadCategoryShapes E h u))) \<subseteq> set (errlog u2)"
      "shapeLoop E cats h (fst (loadCategoryShapes E h u)) (n, u2) = (n3, u3)"
      "categoryLoop E cats rest (n3, u3) = (Inr n', u')"
    by blast
  have e23: "evolves u2 u3"
    using evolves_shapeLoop[of u2 E cats h "fst (loadCategoryShapes E h u)" n] r(4) by simp
  have e3: "evolves u3 u'"
    using evolves_categoryLoop[of u3 E cats rest n3] r(5) by simp
  note fr = categoryLoop_round_shapes_file[OF r(1,2,4)]
  note d3 = disturbed_trans[OF fr(1) e3, of "[?ep, ?sp]"]
  note d2 = disturbed_trans[OF r(1) e23, of "[?ep, ?sp]"]
  show ?case
  proof (cases "disturbed [?ep, ?sp] u u3")
    case True
    with d3 show ?thesis by blast
  next
    case False
    with d2 have nd: "\<not> disturbed [?ep, ?sp] u u2" "\<not> disturbed [?ep, ?sp] u2 u3"
      by simp_all
    show ?thesis
    proof (cases "h = c")
      case True
      have same: "files u2 ?sp = files u ?sp" "existsSync ?sp u2 = existsSync ?sp u"
        "existsSync ?ep u2 = existsSync ?ep u"
        using evolves_untouched[OF r(1) nd(1)] by simp_all
      have rn: "renameSync ?sp ?ep u2 = Inl e"
        using Cons.prems(8) same evolves_refuses[OF r(1)] by (intro renameSync_Inl_same[of u2 u]) simp_all
      have cp: "copyFileSync ?sp ?ep u2 = Inl ce"
        using Cons.prems(9) same evolves_refuses[OF r(1)] by (intro copyFileSync_Inl_same[of u2 u]) simp_all
      have "?ent \<in> set (errlog (snd (shapeLoop E cats c (fst (loadCategoryShapes E c u)) (n, u2))))
            \<or> disturbed [?ep, ?sp] u2 (snd (shapeLoop E cats c (fst (loadCategoryShapes E c u)) (n, u2)))"
        using Cons.prems(6,7) same
        by (intro shapeLoop_logs_copy_error[OF Cons.prems(3,4,5) _ _ rn cp]) simp_all
      with r(4) True nd(2) have "?ent \<in> set (errlog u3)"
        by simp
      with evolves_errlog[OF e3] show ?thesis
        by blast
    next
      case False
      with Cons.prems(1) have in_rest: "c \<in> set rest" by simp
      note nd3 = \<open>\<not> disturbed [?ep, ?sp] u u3\<close>
      have same: "files u3 ?sp = files u ?sp" "existsSync ?sp u3 = existsSync ?sp u"
        "existsSync ?ep u3 = existsSync ?ep u"
        using evolves_untouched[OF fr(1) nd3] by simp_all
      have rn: "renameSync ?sp ?ep u3 = Inl e"
        using Cons.prems(8) same evolves_refuses[OF fr(1)] by (intro renameSync_Inl_same[of u3 u]) simp_all
      have cp: "copyFileSync ?sp ?ep u3 = Inl ce"
        using Cons.prems(9) same evolves_refuses[OF fr(1)] by (intro copyFileSync_Inl_same[of u3 u]) simp_all
      have sh: "s \<in> set (fst (loadCategoryShapes E c u3))"
        using Cons.prems(3) loadCategoryShapes_later(1)[OF fr] by simp
      have "?ent \<in> set (errlog u') \<or> disturbed [?ep, ?sp] u3 u'"
        using Cons.prems(6,7) same
        by (intro Cons.IH[OF in_rest r(5) sh Cons.prems(4,5) _ _ rn cp]) simp_all
      with d3 show ?thesis by blast
    qed
  qed
qed

lemma loadCategories_logs:
  "existsSync (getCategoriesFilePath E) w \<Longrightarrow> readFileSync (getCategoriesFilePath E) w = Inl e \<Longrightarrow>
     (''[CategoryManager] Failed to load categories:'', e) \<in> set (errlog (snd (loadCategories E w)))"
  "existsSync (getCategoriesFilePath E) w \<Longrightarrow> readFileSync (getCategoriesFilePath E) w = Inr content \<Longrightarrow>
     parseCategories E content = None \<Longrightarrow>
     (''[CategoryManager] Failed to load categories:'', SyntaxError) \<in> set (errlog (snd (loadCategories E w)))"
  by (simp_all add: loadCategories_def Let_def)

lemma snd_getCategoryIds: "snd (getCategoryIds E w) = snd (loadCategories E w)"
  by (auto simp: getCategoryIds_def split: prod.splits sum.splits)

lemma loadCategoryShapes_logs:
  "existsSync (getCategoryFilePath E c) w \<Longrightarrow> readFileSync (getCategoryFilePath E c) w = Inl e \<Longrightarrow>
     (''Failed to load '' @ c @ '' shapes:'', e) \<in> set (errlog (snd (loadCategoryShapes E c w)))"
  "existsSync (getCategoryFilePath E c) w \<Longrightarrow> readFileSync (getCategoryFilePath E c) w = Inr content \<Longrightarrow>
     parseShapes E content = None \<Longrightarrow>
     (''Failed to load '' @ c @ '' shapes:'', SyntaxError) \<in> set (errlog (snd (loadCategoryShapes E c w)))"
  by (simp_all add: loadCategoryShapes_def Let_def)

text \<open>
  The run of \<open>repairOrphanedPreviews\<close> taken apart: the early return, and the scan
  followed by the write of the marker.
\<close>

lemma repairOrphanedPreviews_skips:
  assumes "getCategoryIds E w = (Inr ids, w0)" and "\<not> force" and "existsSync (repairMarker E) w0"
  shows "repairOrphanedPreviews E force w = (Inr 0, w0)"
  using assms by (simp add: repairOrphanedPreviews_def)

lemma repairOrphanedPreviews_scans:
  assumes "getCategoryIds E w = (Inr ids, w0)" and "force \<or> \<not> existsSync (repairMarker E) w0"
    and "categoryLoop E ids ids (0, w0) = (Inr n, w1)"
  shows "repairOrphanedPreviews E force w =
     (Inr n, case writeFileSync (repairMarker E) (isoNow E) w1 of
               Inr w2 \<Rightarrow> w2
             | Inl e \<Rightarrow> console_error ''[ShapeSaver] Failed to write repair marker:'' e w1)"
  using assms by (auto simp: repairOrphanedPreviews_def split: sum.splits)

lemma evolves_marker:
  "evolves w1 (case writeFileSync p c w1 of
                 Inr w2 \<Rightarrow> w2
               | Inl e \<Rightarrow> console_error t e w1)"
  by (auto split: sum.splits simp: evolves_write evolves_console_error)

text \<open>
  Claim C5 says that neither operation ever throws and that every file-system error is
  logged. On a disk that refuses to create directories both throw the error of
  \<open>mkdirSync\<close>, which is called outside every \<open>try\<close>; and a rename that fails is not
  logged when the copy that follows succeeds.
\<close>

theorem preview_operations_raise_counterexample:
  "fst (movePreviewToCategory demoEnv bolt ''basic'' ''lines'' readOnlyDirs)
     = Inl (SysError (OpMkdir ''lib/assets/lines'') ''EACCES: permission denied'')
   \<and> fst (repairOrphanedPreviews demoEnv True readOnlyDirs)
     = Inl (SysError (OpMkdir ''lib/assets/blank'') ''EACCES: permission denied'')
   \<and> fst (movePreviewToCategory demoEnv bolt ''basic'' ''arrows'' crossDevice) = Inr ''arrows/bolt.png''
   \<and> errlog (snd (movePreviewToCategory demoEnv bolt ''basic'' ''arrows'' crossDevice)) = []"
  by code_simp

text \<open>
  Claim C5, as the code has it. When no directory creation under the assets folder is
  refused, and \<open>categories.json\<close> exists or can be written, neither operation throws,
  whatever reads, renames, copies and the write of the marker do:
  \<open>movePreviewToCategory\<close> returns the new relative path and
  \<open>repairOrphanedPreviews\<close> returns a count. The errors caught on the way are logged,
  those of a rename apart, which the copy answers:

  \<^item> in \<open>movePreviewToCategory\<close>, when the rename and the copy are both refused, the error
    of the copy is logged and no file has changed; when only the rename is refused, nothing
    is logged;
  \<^item> in \<open>repairOrphanedPreviews\<close>, a failed read of \<open>categories.json\<close> is logged, and so
    is a text there that is not JSON;
  \<^item> when the scan runs, for every category of the store a failed read of its shape file is
    logged, and so is a text there that is not JSON;
  \<^item> when the scan runs, for every shape of a category whose preview is missing and lies
    under another category of the store, with the rename and the copy both failing, the
    error of the copy is logged, unless a call of the run that went through names one of
    the two paths;
  \<^item> when the scan runs and the write of the marker is refused, that error is the last
    entry of the log.
\<close>

theorem preview_operations_catch_and_log:
  assumes mk: "\<forall>c. refuses w (OpMkdir (join (getAssetsDir E) c)) = None"
    and cat: "existsSync (getCategoriesFilePath E) w \<or> refuses w (OpWrite (getCategoriesFilePath E)) = None"
  shows "fst (movePreviewToCategory E shape oldCategory newCategory w)
           = Inr (previewName newCategory (s_id shape))
       \<and> (\<exists>n. fst (repairOrphanedPreviews E force w) = Inr n)
       \<and> (\<forall>content m.
             files w (previewPath E oldCategory (s_id shape)) = Some content
             \<and> refuses w (OpRename (previewPath E oldCategory (s_id shape))
                                   (previewPath E newCategory (s_id shape))) \<noteq> None
             \<and> refuses w (OpCopy (previewPath E oldCategory (s_id shape))
                                 (previewPath E newCategory (s_id shape))) = Some m
             \<longrightarrow>
             errlog (snd (movePreviewToCategory E shape oldCategory newCategory w))
               = errlog w @ [(''[ShapeSaver] Failed to move preview:'',
                              SysError (OpCopy (previewPath E oldCategory (s_id shape))
                                               (previewPath E newCategory (s_id shape))) m)]
             \<and> files (snd (movePreviewToCategory E shape oldCategory newCategory w)) = files w)
       \<and> (\<forall>content.
             files w (previewPath E oldCategory (s_id shape)) = Some content
             \<and> refuses w (OpRename (previewPath E oldCategory (s_id shape))
                                   (previewPath E newCategory (s_id shape))) \<noteq> None
             \<and> refuses w (OpCopy (previewPath E oldCategory (s_id shape))
                                 (previewPath E newCategory (s_id shape))) = None
             \<longrightarrow>
             errlog (snd (movePreviewToCategory E shape oldCategory newCategory w)) = errlog w)
       \<and> (\<forall>e. existsSync (getCategoriesFilePath E) w
               \<and> readFileSync (getCategoriesFilePath E) w = Inl e
             \<longrightarrow>
             (''[CategoryManager] Failed to load categories:'', e)
               \<in> set (errlog (snd (repairOrphanedPreviews E force w))))
       \<and> (\<forall>content. existsSync (getCategoriesFilePath E) w
               \<and> readFileSync (getCategoriesFilePath E) w = Inr content
               \<and> parseCategories E content = None
             \<longrightarrow>
             (''[CategoryManager] Failed to load categories:'', SyntaxError)
               \<in> set (errlog (snd (repairOrphanedPreviews E force w))))
       \<and> (force \<or> \<not> existsSync (repairMarker E) w \<longrightarrow>
            (\<forall>ids c. fst (getCategoryIds E w) = Inr ids \<and> c \<in> set ids \<longrightarrow>
               (\<forall>e. existsSync (getCategoryFilePath E c) w
                     \<and> readFileSync (getCategoryFilePath E c) w = Inl e
                   \<longrightarrow>
                   (''Failed to load '' @ c @ '' shapes:'', e)
                     \<in> set (errlog (snd (repairOrphanedPreviews E force w))))
             \<and> (\<forall>content. existsSync (getCategoryFilePath E c) w
                     \<and> readFileSync (getCategoryFilePath E c) w = Inr content
                     \<and> parseShapes E content = None
                   \<longrightarrow>
                   (''Failed to load '' @ c @ '' shapes:'', SyntaxError)
                     \<in> set (errlog (snd (repairOrphanedPreviews E force w))))
             \<and> (\<forall>s sc e ce.
                     s \<in> set (fst (loadCategoryShapes E c w)) \<and> sc \<in> set ids \<and> sc \<noteq> c
                     \<and> \<not> existsSync (join (getAssetsDir E) (s_preview s)) w
                     \<and> existsSync (previewPath E sc (s_id s)) w
                     \<and> renameSync (previewPath E sc (s_id s)) (join (getAssetsDir E) (s_preview s)) w = Inl e
                     \<and> copyFileSync (previewPath E sc (s_id s)) (join (getAssetsDir E) (s_preview s)) w = Inl ce
                   \<longrightarrow>
                   (''[ShapeSaver] Failed to repair '' @ s_id s @ '':'', ce)
                     \<in> set (errlog (snd (repairOrphanedPreviews E force w)))
                   \<or> disturbed [join (getAssetsDir E) (s_preview s), previewPath E sc (s_id s)]
                        w (snd (repairOrphanedPreviews E force w))))
          \<and> (\<forall>m. refuses w (OpWrite (repairMarker E)) = Some m \<longrightarrow>
                 (\<exists>earlier. errlog (snd (repairOrphanedPreviews E force w))
                    = errlog w @ earlier @ [(''[ShapeSaver] Failed to write repair marker:'',
                                             SysError (OpWrite (repairMarker E)) m)])))"
proof -
  let ?old = "previewPath E oldCategory (s_id shape)"
  let ?new = "previewPath E newCategory (s_id shape)"
  let ?W = "snd (repairOrphanedPreviews E force w)"
  have dir: "existsSync (join (getAssetsDir E) newCategory) w
           \<or> refuses w (OpMkdir (join (getAssetsDir E) newCategory)) = None"
    using mk by simp
  from movePreviewToCategory_unfold[OF dir, of shape oldCategory]
  obtain w1 where w1: "files w1 = files w" "refuses w1 = refuses w" "errlog w1 = errlog w"
    and m: "movePreviewToCategory E shape oldCategory newCategory w =
     (Inr (previewName newCategory (s_id shape)),
      if existsSync ?old w1 then
        (case renameSync ?old ?new w1 of
           Inr w2 \<Rightarrow> w2
         | Inl e \<Rightarrow>
             (case copyFileSync ?old ?new w1 of
                Inr w2 \<Rightarrow> w2
              | Inl copyError \<Rightarrow> console_error ''[ShapeSaver] Failed to move preview:'' copyError w1))
      else w1)"
    by blast
  have logged: "errlog (snd (movePreviewToCategory E shape oldCategory newCategory w))
               = errlog w @ [(''[ShapeSaver] Failed to move preview:'', SysError (OpCopy ?old ?new) msg)]
             \<and> files (snd (movePreviewToCategory E shape oldCategory newCategory w)) = files w"
    if "files w ?old = Some content" and "refuses w (OpRename ?old ?new) \<noteq> None"
      and "refuses w (OpCopy ?old ?new) = Some msg" for content msg
    using that w1
    by (auto simp: m existsSync_def renameSync_def copyFileSync_def)
  have silent: "errlog (snd (movePreviewToCategory E shape oldCategory newCategory w)) = errlog w"
    if "files w ?old = Some content" and "refuses w (OpRename ?old ?new) \<noteq> None"
      and "refuses w (OpCopy ?old ?new) = None" for content
    using that w1
    by (auto simp: m existsSync_def renameSync_def copyFileSync_def)
  obtain ids w0 where g: "getCategoryIds E w = (Inr ids, w0)"
    using getCategoryIds_returns[OF cat] by blast
  note fr = getCategoryIds_frame[OF g]
  have e0: "evolves w w0"
    using evolves_getCategoryIds[of w E] g by simp
  have "\<forall>c. refuses w0 (OpMkdir (join (getAssetsDir E) c)) = None"
    using mk fr(2) by simp
  then obtain n w2 where loop: "categoryLoop E ids ids (0, w0) = (Inr n, w2)"
    using categoryLoop_returns by blast
  have e2: "evolves w0 w2"
    using evolves_categoryLoop[of w0 E ids ids 0] loop by simp
  have ex: "existsSync (repairMarker E) w0 = existsSync (repairMarker E) w"
    using fr(1) fr(3)[OF marker_neq_categories] by (simp add: existsSync_def)
  have returns: "\<exists>k. fst (repairOrphanedPreviews E force w) = Inr k"
    using g loop by (auto simp: repairOrphanedPreviews_def split: sum.splits)
  have W: "?W = w0 \<or> ?W = (case writeFileSync (repairMarker E) (isoNow E) w2 of
               Inr w3 \<Rightarrow> w3
             | Inl e \<Rightarrow> console_error ''[ShapeSaver] Failed to write repair marker:'' e w2)"
    using repairOrphanedPreviews_skips[OF g, of force] repairOrphanedPreviews_scans[OF g _ loop, of force]
    by (cases "\<not> force \<and> existsSync (repairMarker E) w0") auto
  have e3: "evolves w0 ?W"
    using W evolves_refl[of w0] evolves_trans[OF e2 evolves_marker] by metis
  have cats1: "(''[CategoryManager] Failed to load categories:'', e) \<in> set (errlog ?W)"
    if "existsSync (getCategoriesFilePath E) w" and "readFileSync (getCategoriesFilePath E) w = Inl e" for e
    using loadCategories_logs(1)[OF that] evolves_errlog[OF e3] g snd_getCategoryIds[of E w]
    by auto
  have cats2: "(''[CategoryManager] Failed to load categories:'', SyntaxError) \<in> set (errlog ?W)"
    if "existsSync (getCategoriesFilePath E) w" and "readFileSync (getCategoriesFilePath E) w = Inr content"
      and "parseCategories E content = None" for content
    using loadCategories_logs(2)[OF that] evolves_errlog[OF e3] g snd_getCategoryIds[of E w]
    by auto
  have scan: ?thesis if run: "force \<or> \<not> existsSync (repairMarker E) w"
  proof -
    have Ws: "?W = (case writeFileSync (repairMarker E) (isoNow E) w2 of
               Inr w3 \<Rightarrow> w3
             | Inl e \<Rightarrow> console_error ''[ShapeSaver] Failed to write repair marker:'' e w2)"
      using repairOrphanedPreviews_scans[OF g _ loop, of force] run ex by simp
    have e4: "evolves w2 ?W"
      unfolding Ws by (rule evolves_marker)
    have e02: "evolves w w2"
      using e0 e2 by (rule evolves_trans)
    have same: "files w0 (getCategoryFilePath E c) = files w (getCategoryFilePath E c)"
      "dirs w0 (getCategoryFilePath E c) = dirs w (getCategoryFilePath E c)" for c
      using fr(1) fr(3)[OF shapes_file_neq_categories] by (simp_all add: getCategoryFilePath_def)
    have loads: "set (errlog (snd (loadCategoryShapes E c w))) \<subseteq> set (errlog ?W)" if "c \<in> set ids" for c
      using loadCategoryShapes_later(2)[OF e0 same] categoryLoop_logs_load[OF that loop]
        evolves_errlog[OF e4] by blast
    have shapes1: "(''Failed to load '' @ c @ '' shapes:'', e) \<in> set (errlog ?W)"
      if "c \<in> set ids" and "existsSync (getCategoryFilePath E c) w"
        and "readFileSync (getCategoryFilePath E c) w = Inl e" for c e
      using loadCategoryShapes_logs(1)[OF that(2,3)] loads[OF that(1)] by blast
    have shapes2: "(''Failed to load '' @ c @ '' shapes:'', SyntaxError) \<in> set (errlog ?W)"
      if "c \<in> set ids" and "existsSync (getCategoryFilePath E c) w"
        and "readFileSync (getCategoryFilePath E c) w = Inr content"
        and "parseShapes E content = None" for c content
      using loadCategoryShapes_logs(2)[OF that(2,3,4)] loads[OF that(1)] by blast
    have copies: "(''[ShapeSaver] Failed to repair '' @ s_id s @ '':'', ce) \<in> set (errlog ?W)
                  \<or> disturbed [join (getAssetsDir E) (s_preview s), previewPath E sc (s_id s)] w ?W"
      if c: "c \<in> set ids" and s: "s \<in> set (fst (loadCategoryShapes E c w))"
        and sc: "sc \<in> set ids" "sc \<noteq> c"
        and nex: "\<not> existsSync (join (getAssetsDir E) (s_preview s)) w"
        and sex: "existsSync (previewPath E sc (s_id s)) w"
        and rn: "renameSync (previewPath E sc (s_id s)) (join (getAssetsDir E) (s_preview s)) w = Inl e"
        and cp: "copyFileSync (previewPath E sc (s_id s)) (join (getAssetsDir E) (s_preview s)) w = Inl ce"
      for c s sc e ce
    proof -
      let ?ep = "join (getAssetsDir E) (s_preview s)"
      let ?sp = "previewPath E sc (s_id s)"
      let ?ent = "(''[ShapeSaver] Failed to repair '' @ s_id s @ '':'', ce)"
      have e0W: "evolves w0 ?W"
        using e2 e4 by (rule evolves_trans)
      note d0 = disturbed_trans[OF e0 e0W, of "[?ep, ?sp]"]
      note d2 = disturbed_trans[OF e2 e4, of "[?ep, ?sp]"]
      show ?thesis
      proof (cases "disturbed [?ep, ?sp] w w0")
        case True
        with d0 show ?thesis by blast
      next
        case False
        have same0: "files w0 ?sp = files w ?sp" "existsSync ?sp w0 = existsSync ?sp w"
          "existsSync ?ep w0 = existsSync ?ep w"
          using evolves_untouched[OF e0 False] by simp_all
        have rn0: "renameSync ?sp ?ep w0 = Inl e"
          using rn same0 fr(2) by (intro renameSync_Inl_same[of w0 w]) simp_all
        have cp0: "copyFileSync ?sp ?ep w0 = Inl ce"
          using cp same0 fr(2) by (intro copyFileSync_Inl_same[of w0 w]) simp_all
        have s0: "s \<in> set (fst (loadCategoryShapes E c w0))"
          using s loadCategoryShapes_later(1)[OF e0 same] by simp
        have "?ent \<in> set (errlog w2) \<or> disturbed [?ep, ?sp] w0 w2"
          using nex sex same0
          by (intro categoryLoop_logs_copy_error[OF c loop s0 sc _ _ rn0 cp0]) simp_all
        with evolves_errlog[OF e4] d0 d2 show ?thesis
          by blast
      qed
    qed
    have marker: "\<exists>earlier. errlog ?W = errlog w @ earlier
                    @ [(''[ShapeSaver] Failed to write repair marker:'', SysError (OpWrite (repairMarker E)) msg)]"
      if "refuses w (OpWrite (repairMarker E)) = Some msg" for msg
    proof -
      from e02 obtain more where more: "errlog w2 = errlog w @ more"
        unfolding evolves_def by blast
      have "refuses w2 (OpWrite (repairMarker E)) = Some msg"
        using that evolves_refuses[OF e02] by simp
      then have "?W = console_error ''[ShapeSaver] Failed to write repair marker:''
                        (SysError (OpWrite (repairMarker E)) msg) w2"
        unfolding Ws by (simp add: writeFileSync_def)
      then have "errlog ?W = errlog w @ more
                    @ [(''[ShapeSaver] Failed to write repair marker:'', SysError (OpWrite (repairMarker E)) msg)]"
        using more by simp
      then show ?thesis by blast
    qed
    have idsEq: "ids' = ids" if "fst (getCategoryIds E w) = Inr ids'" for ids'
      using that g by simp
    have part: "(\<forall>ids c. fst (getCategoryIds E w) = Inr ids \<and> c \<in> set ids \<longrightarrow>
               (\<forall>e. existsSync (getCategoryFilePath E c) w
                     \<and> readFileSync (getCategoryFilePath E c) w = Inl e
                   \<longrightarrow>
                   (''Failed to load '' @ c @ '' shapes:'', e) \<in> set (errlog ?W))
             \<and> (\<forall>content. existsSync (getCategoryFilePath E c) w
                     \<and> readFileSync (getCategoryFilePath E c) w = Inr content
                     \<and> parseShapes E content = None
                   \<longrightarrow>
                   (''Failed to load '' @ c @ '' shapes:'', SyntaxError) \<in> set (errlog ?W))
             \<and> (\<forall>s sc e ce.
                     s \<in> set (fst (loadCategoryShapes E c w)) \<and> sc \<in> set ids \<and> sc \<noteq> c
                     \<and> \<not> existsSync (join (getAssetsDir E) (s_preview s)) w
                     \<and> existsSync (previewPath E sc (s_id s)) w
                     \<and> renameSync (previewPath E sc (s_id s)) (join (getAssetsDir E) (s_preview s)) w = Inl e
                     \<and> copyFileSync (previewPath E sc (s_id s)) (join (getAssetsDir E) (s_preview s)) w = Inl ce
                   \<longrightarrow>
                   (''[ShapeSaver] Failed to repair '' @ s_id s @ '':'', ce) \<in> set (errlog ?W)
                   \<or> disturbed [join (getAssetsDir E) (s_preview s), previewPath E sc (s_id s)] w ?W))"
      using shapes1 shapes2 copies idsEq by blast
    show ?thesis
      using logged silent returns cats1 cats2 part marker by (simp only: m fst_conv snd_conv) blast
  qed
  show ?thesis
  proof (cases "force \<or> \<not> existsSync (repairMarker E) w")
    case True
    then show ?thesis by (rule scan)
  next
    case False
    then show ?thesis
      using logged silent returns cats1 cats2 by (simp only: m fst_conv snd_conv) blast
  qed
qed

theorem preview_operations_catch_and_log_witness:
  "fst (movePreviewToCategory demoEnv bolt ''basic'' ''lines'' brokenDisk) = Inr ''lines/bolt.png''
   \<and> (\<exists>n. fst (repairOrphanedPreviews demoEnv True brokenDisk) = Inr n)
   \<and> errlog (snd (movePreviewToCategory demoEnv bolt ''basic'' ''lines'' brokenDisk))
       = [(''[ShapeSaver] Failed to move preview:'',
           SysError (OpCopy ''lib/assets/basic/bolt.png'' ''lib/assets/lines/bolt.png'') ''EIO: i/o error'')]
   \<and> files (snd (movePreviewToCategory demoEnv bolt ''basic'' ''lines'' brokenDisk)) = files brokenDisk
   \<and> errlog (snd (movePreviewToCategory demoEnv bolt ''basic'' ''arrows'' crossDevice)) = []
   \<and> (''[CategoryManager] Failed to load categories:'',
       SysError (OpRead ''lib/categories.json'') ''EIO: i/o error'')
       \<in> set (errlog (snd (repairOrphanedPreviews demoEnv True brokenDisk)))
   \<and> (''Failed to load basic shapes:'', SysError (OpRead ''lib/shapes/basic.json'') ''EIO: i/o error'')
       \<in> set (errlog (snd (repairOrphanedPreviews demoEnv True brokenDisk)))
   \<and> (\<exists>earlier. errlog (snd (repairOrphanedPreviews demoEnv True brokenDisk))
         = earlier @ [(''[ShapeSaver] Failed to write repair marker:'',
                       SysError (OpWrite ''lib/.preview_repair_done'') ''EIO: i/o error'')])
   \<and> (''[CategoryManager] Failed to load categories:'', SyntaxError)
       \<in> set (errlog (snd (repairOrphanedPreviews demoEnv False garbledWorld)))
   \<and> (''Failed to load arrows shapes:'', SyntaxError)
       \<in> set (errlog (snd (repairOrphanedPreviews demoEnv False garbledWorld)))
   \<and> (''[ShapeSaver] Failed to repair star:'',
       SysError (OpCopy ''lib/assets/arrows/star.png'' ''lib/assets/basic/star.png'')
         ''EPERM: operation not permitted'')
       \<in> set (errlog (snd (repairOrphanedPreviews demoEnv True frozenAssets)))"
proof -
  have mkB: "\<forall>c. refuses brokenDisk (OpMkdir (join (getAssetsDir demoEnv) c)) = None"
    by (simp add: brokenDisk_def)
  have catB: "existsSync (getCategoriesFilePath demoEnv) brokenDisk
             \<or> refuses brokenDisk (OpWrite (getCategoriesFilePath demoEnv)) = None"
    by (simp add: brokenDisk_def demoWorld_def existsSync_def demo_paths)
  have mkX: "\<forall>c. refuses crossDevice (OpMkdir (join (getAssetsDir demoEnv) c)) = None"
    by (simp add: crossDevice_def)
  have catX: "existsSync (getCategoriesFilePath demoEnv) crossDevice
             \<or> refuses crossDevice (OpWrite (getCategoriesFilePath demoEnv)) = None"
    by (simp add: crossDevice_def)
  have mkG: "\<forall>c. refuses garbledWorld (OpMkdir (join (getAssetsDir demoEnv) c)) = None"
    by (simp add: garbledWorld_def demoWorld_def)
  have catG: "existsSync (getCategoriesFilePath demoEnv) garbledWorld
             \<or> refuses garbledWorld (OpWrite (getCategoriesFilePath demoEnv)) = None"
    by (simp add: garbledWorld_def demoWorld_def)
  have mkF: "\<forall>c. refuses frozenAssets (OpMkdir (join (getAssetsDir demoEnv) c)) = None"
    by (simp add: frozenAssets_def)
  have catF: "existsSync (getCategoriesFilePath demoEnv) frozenAssets
             \<or> refuses frozenAssets (OpWrite (getCategoriesFilePath demoEnv)) = None"
    by (simp add: frozenAssets_def demoWorld_def existsSync_def demo_paths)
  note B = preview_operations_catch_and_log[OF mkB catB, of bolt "''basic''" "''lines''" True]
  note X = preview_operations_catch_and_log[OF mkX catX, of bolt "''basic''" "''arrows''" True]
  note G = preview_operations_catch_and_log[OF mkG catG, of bolt "''basic''" "''lines''" False]
  note F = preview_operations_catch_and_log[OF mkF catF, of bolt "''basic''" "''lines''" True]
  have i: "s_id bolt = ''bolt''" "s_id star = ''star''" "s_preview star = ''basic/star.png''"
    by (simp_all add: bolt_def star_def)
  have fB: "files brokenDisk ''lib/assets/basic/bolt.png'' = Some ''PNG bolt''"
    "errlog brokenDisk = []"
    "files brokenDisk ''lib/categories.json'' \<noteq> None"
    "files brokenDisk ''lib/shapes/basic.json'' \<noteq> None"
    by (simp_all add: brokenDisk_def demoWorld_def)
  have rB: "refuses brokenDisk (OpRename ''lib/assets/basic/bolt.png'' ''lib/assets/lines/bolt.png'') \<noteq> None"
    "refuses brokenDisk (OpCopy ''lib/assets/basic/bolt.png'' ''lib/assets/lines/bolt.png'')
       = Some ''EIO: i/o error''"
    "refuses brokenDisk (OpRead ''lib/categories.json'') = Some ''EIO: i/o error''"
    "refuses brokenDisk (OpRead ''lib/shapes/basic.json'') = Some ''EIO: i/o error''"
    "refuses brokenDisk (OpWrite ''lib/.preview_repair_done'') = Some ''EIO: i/o error''"
    by (simp_all add: brokenDisk_def)
  have idsB: "fst (getCategoryIds demoEnv brokenDisk) = Inr [''basic'', ''arrows'', ''flowchart'', ''callouts'']"
    by code_simp
  have idsG: "fst (getCategoryIds demoEnv garbledWorld) = Inr [''basic'', ''arrows'', ''flowchart'', ''callouts'']"
    by code_simp
  have idsF: "fst (getCategoryIds demoEnv frozenAssets) = Inr [''basic'', ''arrows'', ''blank'']"
    by code_simp
  have w1: "fst (movePreviewToCategory demoEnv bolt ''basic'' ''lines'' brokenDisk) = Inr ''lines/bolt.png''"
    using B[THEN conjunct1] by (simp add: i previewName_def)
  have w2: "\<exists>n. fst (repairOrphanedPreviews demoEnv True brokenDisk) = Inr n"
    using B[THEN conjunct2, THEN conjunct1] .
  have w3: "errlog (snd (movePreviewToCategory demoEnv bolt ''basic'' ''lines'' brokenDisk))
       = [(''[ShapeSaver] Failed to move preview:'',
           SysError (OpCopy ''lib/assets/basic/bolt.png'' ''lib/assets/lines/bolt.png'') ''EIO: i/o error'')]
     \<and> files (snd (movePreviewToCategory demoEnv bolt ''basic'' ''lines'' brokenDisk)) = files brokenDisk"
    using B[THEN conjunct2, THEN conjunct2, THEN conjunct1, rule_format,
            of "''PNG bolt''" "''EIO: i/o error''"] fB rB
    by (simp add: i demo_paths join_def previewPath_def previewName_def)
  have w4: "errlog (snd (movePreviewToCategory demoEnv bolt ''basic'' ''arrows'' crossDevice)) = []"
    using X[THEN conjunct2, THEN conjunct2, THEN conjunct2, THEN conjunct1, rule_format,
            of "''PNG bolt''"]
    by (simp add: i demo_paths join_def previewPath_def previewName_def crossDevice_def demoWorld_def)
  have w5: "(''[CategoryManager] Failed to load categories:'',
       SysError (OpRead ''lib/categories.json'') ''EIO: i/o error'')
       \<in> set (errlog (snd (repairOrphanedPreviews demoEnv True brokenDisk)))"
    using B[THEN conjunct2, THEN conjunct2, THEN conjunct2, THEN conjunct2, THEN conjunct1, rule_format,
            of "SysError (OpRead ''lib/categories.json'') ''EIO: i/o error''"] fB rB
    by (simp add: demo_paths existsSync_def readFileSync_def)
  note B7 = B[THEN conjunct2, THEN conjunct2, THEN conjunct2, THEN conjunct2, THEN conjunct2,
              THEN conjunct2, THEN mp, OF disjI1, OF TrueI]
  have pB: "fst (getCategoryIds demoEnv brokenDisk) = Inr [''basic'', ''arrows'', ''flowchart'', ''callouts'']
            \<and> ''basic'' \<in> set [''basic'', ''arrows'', ''flowchart'', ''callouts'']"
    using idsB by simp
  have w6: "(''Failed to load basic shapes:'', SysError (OpRead ''lib/shapes/basic.json'') ''EIO: i/o error'')
       \<in> set (errlog (snd (repairOrphanedPreviews demoEnv True brokenDisk)))"
    using B7[THEN conjunct1, rule_format, OF pB, THEN conjunct1, rule_format,
             of "SysError (OpRead ''lib/shapes/basic.json'') ''EIO: i/o error''"] fB rB
    by (simp add: demo_paths existsSync_def readFileSync_def)
  have w7: "\<exists>earlier. errlog (snd (repairOrphanedPreviews demoEnv True brokenDisk))
         = earlier @ [(''[ShapeSaver] Failed to write repair marker:'',
                       SysError (OpWrite ''lib/.preview_repair_done'') ''EIO: i/o error'')]"
    using B7[THEN conjunct2, rule_format, of "''EIO: i/o error''"] fB rB
    by (simp add: demo_paths)
  have fG: "files garbledWorld ''lib/categories.json'' = Some ''{garbled''"
    "files garbledWorld ''lib/shapes/arrows.json'' = Some ''[garbled''"
    "refuses garbledWorld = (\<lambda>opn. None)"
    "files garbledWorld ''lib/.preview_repair_done'' = None"
    "\<not> dirs garbledWorld ''lib/.preview_repair_done''"
    by (simp_all add: garbledWorld_def demoWorld_def)
  have parseG: "parseCategories demoEnv ''{garbled'' = None" "parseShapes demoEnv ''[garbled'' = None"
    by code_simp+
  have w8: "(''[CategoryManager] Failed to load categories:'', SyntaxError)
       \<in> set (errlog (snd (repairOrphanedPreviews demoEnv False garbledWorld)))"
    using G[THEN conjunct2, THEN conjunct2, THEN conjunct2, THEN conjunct2, THEN conjunct2,
            THEN conjunct1, rule_format, of "''{garbled''"] fG parseG
    by (simp add: demo_paths existsSync_def readFileSync_def)
  have runG: "False \<or> \<not> existsSync (repairMarker demoEnv) garbledWorld"
    using fG by (simp add: demo_paths existsSync_def)
  note G7 = G[THEN conjunct2, THEN conjunct2, THEN conjunct2, THEN conjunct2, THEN conjunct2,
              THEN conjunct2, THEN mp, OF runG]
  have pG: "fst (getCategoryIds demoEnv garbledWorld) = Inr [''basic'', ''arrows'', ''flowchart'', ''callouts'']
            \<and> ''arrows'' \<in> set [''basic'', ''arrows'', ''flowchart'', ''callouts'']"
    using idsG by simp
  have w9: "(''Failed to load arrows shapes:'', SyntaxError)
       \<in> set (errlog (snd (repairOrphanedPreviews demoEnv False garbledWorld)))"
    using G7[THEN conjunct1, rule_format, OF pG, THEN conjunct2, THEN conjunct1, rule_format,
             of "''[garbled''"] fG parseG
    by (simp add: demo_paths existsSync_def readFileSync_def)
  note F7 = F[THEN conjunct2, THEN conjunct2, THEN conjunct2, THEN conjunct2, THEN conjunct2,
              THEN conjunct2, THEN mp, OF disjI1, OF TrueI]
  have pF: "fst (getCategoryIds demoEnv frozenAssets) = Inr [''basic'', ''arrows'', ''blank'']
            \<and> ''basic'' \<in> set [''basic'', ''arrows'', ''blank'']"
    using idsF by simp
  have candidate: "star \<in> set (fst (loadCategoryShapes demoEnv ''basic'' frozenAssets))
            \<and> ''arrows'' \<in> set [''basic'', ''arrows'', ''blank''] \<and> ''arrows'' \<noteq> ''basic''
            \<and> \<not> existsSync (join (getAssetsDir demoEnv) (s_preview star)) frozenAssets
            \<and> existsSync (previewPath demoEnv ''arrows'' (s_id star)) frozenAssets"
    by code_simp
  have refusedF:
    "renameSync (previewPath demoEnv ''arrows'' (s_id star)) (join (getAssetsDir demoEnv) (s_preview star))
       frozenAssets
     = Inl (SysError (OpRename ''lib/assets/arrows/star.png'' ''lib/assets/basic/star.png'')
              ''EPERM: operation not permitted'')"
    "copyFileSync (previewPath demoEnv ''arrows'' (s_id star)) (join (getAssetsDir demoEnv) (s_preview star))
       frozenAssets
     = Inl (SysError (OpCopy ''lib/assets/arrows/star.png'' ''lib/assets/basic/star.png'')
              ''EPERM: operation not permitted'')"
    by (simp_all add: renameSync_def copyFileSync_def frozenAssets_def i demo_paths join_def
        previewPath_def previewName_def)
  have quiet: "\<not> disturbed [join (getAssetsDir demoEnv) (s_preview star),
                              previewPath demoEnv ''arrows'' (s_id star)]
                   frozenAssets (snd (repairOrphanedPreviews demoEnv True frozenAssets))"
    by code_simp
  have w10: "(''[ShapeSaver] Failed to repair star:'',
       SysError (OpCopy ''lib/assets/arrows/star.png'' ''lib/assets/basic/star.png'')
         ''EPERM: operation not permitted'')
       \<in> set (errlog (snd (repairOrphanedPreviews demoEnv True frozenAssets)))"
    using F7[THEN conjunct1, rule_format, OF pF, THEN conjunct2, THEN conjunct2, rule_format,
             of star "''arrows''"
                "SysError (OpRename ''lib/assets/arrows/star.png'' ''lib/assets/basic/star.png'')
                   ''EPERM: operation not permitted''"
                "SysError (OpCopy ''lib/assets/arrows/star.png'' ''lib/assets/basic/star.png'')
                   ''EPERM: operation not permitted''"]
      candidate refusedF quiet
    by (simp add: i)
  show ?thesis
    using w1 w2 w3 w4 w5 w6 w7 w8 w9 w10 by (intro conjI) simp_all
qed

text \<open>
  Claim C6. With the marker file present and \<open>force\<close> false,
  \<open>repairOrphanedPreviews\<close> returns 0 at once: the world is the one left by reading the
  category ids, no file is relocated, no directory is made, and no file other than
  \<open>categories.json\<close> (which \<open>loadCategories\<close> creates when it is missing) differs.
  In every other case the scan runs; when it completes, the value returned is the number
  of renames and copies that went through during the call, zero included, and the marker
  file holds the current timestamp once the file system accepts that write.
\<close>

theorem repairOrphanedPreviews_marker_and_count:
  assumes ids: "fst (getCategoryIds E w) = Inr ids"
  shows "(\<not> force \<and> existsSync (repairMarker E) w \<longrightarrow>
            fst (repairOrphanedPreviews E force w) = Inr 0
          \<and> snd (repairOrphanedPreviews E force w) = snd (getCategoryIds E w)
          \<and> relocations (snd (repairOrphanedPreviews E force w)) = relocations w
          \<and> dirs (snd (repairOrphanedPreviews E force w)) = dirs w
          \<and> (\<forall>p. p \<noteq> getCategoriesFilePath E \<longrightarrow>
                files (snd (repairOrphanedPreviews E force w)) p = files w p))
       \<and> (force \<or> \<not> existsSync (repairMarker E) w \<longrightarrow>
            (\<forall>n. fst (repairOrphanedPreviews E force w) = Inr n \<longrightarrow>
                 (\<exists>w1. categoryLoop E ids ids (0, snd (getCategoryIds E w)) = (Inr n, w1))
               \<and> relocations (snd (repairOrphanedPreviews E force w)) = relocations w + n
               \<and> (refuses w (OpWrite (repairMarker E)) = None \<longrightarrow>
                    files (snd (repairOrphanedPreviews E force w)) (repairMarker E) = Some (isoNow E))))"
proof -
  obtain w0 where g: "getCategoryIds E w = (Inr ids, w0)"
    using ids by (cases "getCategoryIds E w") simp
  note fr = getCategoryIds_frame[OF g]
  have ex: "existsSync (repairMarker E) w0 = existsSync (repairMarker E) w"
    using fr(1) fr(3)[OF marker_neq_categories] by (simp add: existsSync_def)
  have skip: "repairOrphanedPreviews E force w = (Inr 0, w0)"
    if "\<not> force" and "existsSync (repairMarker E) w"
    using that g ex by (simp add: repairOrphanedPreviews_def)
  have run: "(\<exists>w1. categoryLoop E ids ids (0, w0) = (Inr n, w1))
               \<and> relocations (snd (repairOrphanedPreviews E force w)) = relocations w + n
               \<and> (refuses w (OpWrite (repairMarker E)) = None \<longrightarrow>
                    files (snd (repairOrphanedPreviews E force w)) (repairMarker E) = Some (isoNow E))"
    if go: "force \<or> \<not> existsSync (repairMarker E) w"
      and ret: "fst (repairOrphanedPreviews E force w) = Inr n" for n
  proof -
    obtain r1 w1 where loop: "categoryLoop E ids ids (0, w0) = (r1, w1)"
      by (cases "categoryLoop E ids ids (0, w0)")
    have unf: "repairOrphanedPreviews E force w =
        (case r1 of
           Inl e \<Rightarrow> (Inl e, w1)
         | Inr repairedCount \<Rightarrow>
             (case writeFileSync (repairMarker E) (isoNow E) w1 of
                Inr w2 \<Rightarrow> (Inr repairedCount, w2)
              | Inl e \<Rightarrow>
                  (Inr repairedCount,
                   console_error ''[ShapeSaver] Failed to write repair marker:'' e w1)))"
      using g go ex loop by (auto simp: repairOrphanedPreviews_def)
    from ret unf have r1: "r1 = Inr n"
      by (cases r1) (auto split: sum.splits)
    from categoryLoop_inv[OF loop[unfolded r1]]
    have inv: "refuses w1 = refuses w0" "n + relocations w0 = relocations w1"
      by simp_all
    have "relocations (snd (repairOrphanedPreviews E force w)) = relocations w1"
      by (auto simp: unf r1 writeFileSync_def relocations_def split: option.splits)
    moreover have "files (snd (repairOrphanedPreviews E force w)) (repairMarker E) = Some (isoNow E)"
      if "refuses w (OpWrite (repairMarker E)) = None"
      using that inv(1) fr(2) by (simp add: unf r1 writeFileSync_def)
    ultimately show ?thesis
      using loop r1 inv fr(4) by simp
  qed
  show ?thesis
    using skip run fr by (simp add: g)
qed

theorem repairOrphanedPreviews_marker_and_count_witness:
  "fst (repairOrphanedPreviews demoEnv False markedWorld) = Inr 0
   \<and> relocations (snd (repairOrphanedPreviews demoEnv False markedWorld)) = 0
   \<and> fst (repairOrphanedPreviews demoEnv True markedWorld) = Inr 1
   \<and> relocations (snd (repairOrphanedPreviews demoEnv True markedWorld)) = 1
   \<and> files (snd (repairOrphanedPreviews demoEnv True markedWorld)) ''lib/.preview_repair_done''
       = Some ''2024-05-01T10:00:00.000Z''
   \<and> fst (repairOrphanedPreviews demoEnv False demoWorld) = Inr 1
   \<and> files (snd (repairOrphanedPreviews demoEnv False demoWorld)) ''lib/.preview_repair_done''
       = Some ''2024-05-01T10:00:00.000Z''"
proof -
  have m: "existsSync (repairMarker demoEnv) markedWorld" "\<not> existsSync (repairMarker demoEnv) demoWorld"
    by (simp_all add: existsSync_def markedWorld_def demoWorld_def demo_paths)
  have r: "relocations markedWorld = 0" "relocations demoWorld = 0"
    by (simp_all add: relocations_def markedWorld_def demoWorld_def)
  have wr: "refuses markedWorld (OpWrite (repairMarker demoEnv)) = None"
    "refuses demoWorld (OpWrite (repairMarker demoEnv)) = None"
    by (simp_all add: markedWorld_def demoWorld_def)
  have t: "isoNow demoEnv = ''2024-05-01T10:00:00.000Z''"
    by (simp add: demoEnv_def)
  have run: "fst (repairOrphanedPreviews demoEnv True markedWorld) = Inr 1"
    "fst (repairOrphanedPreviews demoEnv False demoWorld) = Inr 1"
    by code_simp+
  from repairOrphanedPreviews_marker_and_count[OF marked_getCategoryIds, of False] m
  have s1: "fst (repairOrphanedPreviews demoEnv False markedWorld) = Inr 0"
    "relocations (snd (repairOrphanedPreviews demoEnv False markedWorld)) = relocations markedWorld"
    by blast+
  from repairOrphanedPreviews_marker_and_count[OF marked_getCategoryIds, of True] run(1) wr(1)
  have s2: "relocations (snd (repairOrphanedPreviews demoEnv True markedWorld)) = relocations markedWorld + 1"
    "files (snd (repairOrphanedPreviews demoEnv True markedWorld)) (repairMarker demoEnv)
       = Some (isoNow demoEnv)"
    by blast+
  from repairOrphanedPreviews_marker_and_count[OF demo_getCategoryIds, of False] m(2) run(2) wr(2)
  have s3: "files (snd (repairOrphanedPreviews demoEnv False demoWorld)) (repairMarker demoEnv)
       = Some (isoNow demoEnv)"
    by blast
  show ?thesis
    using s1 s2 s3 run r by (simp add: t demo_paths)
qed

end
